theory Spec2Isabelle
  imports Main "HOL-Library.Word"
begin

unbundle bit_operations_syntax

section \<open>C data: bytes, pointers, buffers\<close>

text \<open>
  The program is one C file, \<^verbatim>\<open>rpp.c\<close>. Its functions work on caller-supplied character
  arrays and on the results of C library calls. Character arrays are \<open>string\<close>s (lists of
  8-bit \<open>char\<close>s) holding the whole array, terminator included; the text of a C string
  argument is the list of its characters before the terminator. A pointer that the code
  tests against \<^verbatim>\<open>NULL\<close> is a \<open>ptr\<close>. A function that would read or write outside an array has
  no defined result in C: its model returns \<open>None\<close>.
\<close>

type_synonym u8 = "8 word"

datatype 'a ptr = NULL | Ptr 'a

definition NUL :: char where
  "NUL = CHR 0x00"

definition c_str :: "string \<Rightarrow> string option" where
  \<comment> \<open>the C string held by an array: the characters before the first terminator\<close>
  "c_str buf = (if NUL \<in> set buf then Some (takeWhile (\<lambda>c. c \<noteq> NUL) buf) else None)"

definition poke :: "string \<Rightarrow> int \<Rightarrow> char \<Rightarrow> string option" where
  \<comment> \<open>\<^verbatim>\<open>buf[i] = c\<close>\<close>
  "poke buf i c = (if 0 \<le> i \<and> nat i < length buf then Some (buf[nat i := c]) else None)"

definition store :: "string \<Rightarrow> nat \<Rightarrow> string \<Rightarrow> string option" where
  \<comment> \<open>write the bytes \<open>bs\<close> at \<^verbatim>\<open>buf + off\<close>\<close>
  "store buf off bs =
     (if off + length bs \<le> length buf
      then Some (take off buf @ bs @ drop (off + length bs) buf)
      else None)"

definition size_t :: "int \<Rightarrow> nat" where
  \<comment> \<open>conversion of an \<^verbatim>\<open>int\<close> argument to the 64-bit unsigned \<^verbatim>\<open>size_t\<close>\<close>
  "size_t i = nat (i mod 2 ^ 64)"

subsection \<open>Formatted output\<close>

definition digit :: "nat \<Rightarrow> char" where
  "digit d = ''0123456789abcdef'' ! d"

function fmt_dec :: "nat \<Rightarrow> string" where
  "fmt_dec n = (if n < 10 then [digit n] else fmt_dec (n div 10) @ [digit (n mod 10)])"
  by pat_completeness auto
termination
  by (relation "measure id") auto

function fmt_hex :: "nat \<Rightarrow> string" where
  "fmt_hex n = (if n < 16 then [digit n] else fmt_hex (n div 16) @ [digit (n mod 16)])"
  by pat_completeness auto
termination
  by (relation "measure id") auto

declare fmt_dec.simps [simp del] fmt_hex.simps [simp del]

definition fmt_d :: "int \<Rightarrow> string" where
  \<comment> \<open>the conversion \<^verbatim>\<open>%d\<close>\<close>
  "fmt_d i = (if i < 0 then CHR ''-'' # fmt_dec (nat (- i)) else fmt_dec (nat i))"

definition fmt_x :: "int \<Rightarrow> string" where
  \<comment> \<open>the conversion \<^verbatim>\<open>%x\<close>: the argument read as a 32-bit unsigned value\<close>
  "fmt_x i = fmt_hex (nat (i mod 2 ^ 32))"

definition snprintf :: "string \<Rightarrow> nat \<Rightarrow> nat \<Rightarrow> string \<Rightarrow> (int \<times> string) option" where
  \<comment> \<open>\<^verbatim>\<open>snprintf(buf + off, n, ...)\<close> where the format expands to \<open>s\<close>: at most \<open>n - 1\<close>
      characters and a terminator are written, nothing when \<open>n = 0\<close>; the value returned is
      the length of the whole expansion\<close>
  "snprintf buf off n s =
     (if n = 0 then Some (int (length s), buf)
      else case store buf off (take (n - 1) s @ [NUL]) of
             None \<Rightarrow> None
           | Some buf' \<Rightarrow> Some (int (length s), buf'))"

section \<open>\<^verbatim>\<open>ip2revdns\<close>: the reverse DNS name of an address\<close>

datatype family = AF_INET | AF_INET6

text \<open>
  \<^verbatim>\<open>inet_pton\<close> belongs to the C library, so it is a parameter of the model: given the
  family and the text it returns \<open>None\<close> when the conversion fails (a return value other
  than 1), and otherwise the contents of \<^verbatim>\<open>ip6.s6_addr\<close> after the call, as a function of the
  byte index (4 bytes are meaningful for \<open>AF_INET\<close>, 16 for \<open>AF_INET6\<close>).
\<close>

type_synonym inet_pton_t = "family \<Rightarrow> string \<Rightarrow> (nat \<Rightarrow> u8) option"

definition fail_zeroed :: "string \<Rightarrow> (int \<times> string ptr) option" where
  \<comment> \<open>\<^verbatim>\<open>*res = 0; return(-1);\<close>\<close>
  "fail_zeroed buf = (case poke buf 0 NUL of None \<Rightarrow> None | Some buf' \<Rightarrow> Some (- 1, Ptr buf'))"

definition ipfamily_of :: "string \<Rightarrow> family" where
  "ipfamily_of orig =
     (if orig ! 1 = CHR ''.'' \<or> orig ! 2 = CHR ''.'' \<or> orig ! 3 = CHR ''.''
      then AF_INET else AF_INET6)"

definition fmt_inaddr :: "(nat \<Rightarrow> u8) \<Rightarrow> string" where
  \<comment> \<open>the expansion of \<^verbatim>\<open>"%d.%d.%d.%d.in-addr.arpa"\<close> on bytes 3, 2, 1, 0\<close>
  "fmt_inaddr a =
     fmt_d (uint (a 3)) @ ''.'' @ fmt_d (uint (a 2)) @ ''.'' @ fmt_d (uint (a 1)) @ ''.''
       @ fmt_d (uint (a 0)) @ ''.in-addr.arpa''"

definition fmt_nibbles :: "u8 \<Rightarrow> string" where
  \<comment> \<open>the expansion of \<^verbatim>\<open>"%x.%x."\<close> on \<^verbatim>\<open>b & 0x0F\<close> and \<^verbatim>\<open>b >> 4\<close>\<close>
  "fmt_nibbles b = fmt_x (uint (b AND 0x0F)) @ ''.'' @ fmt_x (uint (drop_bit 4 b)) @ ''.''"

text \<open>
  The loop \<^verbatim>\<open>for (i = 15; i >= 0; i--)\<close>; the counter of the model is \<open>i + 1\<close>. The result is
  \<open>Inl\<close> of the buffer when the loop leaves the function with \<^verbatim>\<open>return(-1)\<close>, and \<open>Inr\<close> of
  \<^verbatim>\<open>rlen\<close> and the buffer when it runs to its end.
\<close>

fun ip6_loop :: "(nat \<Rightarrow> u8) \<Rightarrow> int \<Rightarrow> nat \<Rightarrow> int \<Rightarrow> string \<Rightarrow> (string + int \<times> string) option" where
  "ip6_loop a reslen 0 rlen buf = Some (Inr (rlen, buf))"
| "ip6_loop a reslen (Suc i) rlen buf =
     (case snprintf buf (nat rlen) (size_t (reslen - rlen)) (fmt_nibbles (a i)) of
        None \<Rightarrow> None
      | Some (n, buf') \<Rightarrow>
          if rlen + n \<ge> reslen then map_option Inl (poke buf' 0 NUL)
          else ip6_loop a reslen i (rlen + n) buf')"

definition ip2revdns :: "inet_pton_t \<Rightarrow> string ptr \<Rightarrow> int \<Rightarrow> string ptr \<Rightarrow> (int \<times> string ptr) option" where
  "ip2revdns inet_pton res reslen orig =
     (case res of
        NULL \<Rightarrow> Some (- 1, NULL)
      | Ptr buf \<Rightarrow>
         (case orig of
            NULL \<Rightarrow> fail_zeroed buf
          | Ptr s \<Rightarrow>
              if length s < 4 then fail_zeroed buf
              else
                (case inet_pton (ipfamily_of s) s of
                   None \<Rightarrow> fail_zeroed buf
                 | Some a \<Rightarrow>
                     if ipfamily_of s = AF_INET then
                       (case snprintf buf 0 (size_t reslen) (fmt_inaddr a) of
                          None \<Rightarrow> None
                        | Some (n, buf') \<Rightarrow> Some (0, Ptr buf'))
                     else
                       (case ip6_loop a reslen 16 0 buf of
                          None \<Rightarrow> None
                        | Some (Inl buf') \<Rightarrow> Some (- 1, Ptr buf')
                        | Some (Inr (rlen, buf')) \<Rightarrow>
                            (case snprintf buf' (nat rlen) (size_t (reslen - rlen)) ''ip6.arpa'' of
                               None \<Rightarrow> None
                             | Some (n, buf'') \<Rightarrow>
                                 if rlen + n \<ge> reslen then fail_zeroed buf''
                                 else Some (0, Ptr buf''))))))"

section \<open>\<^verbatim>\<open>rpp_getcontroller\<close>: the controller of a reverse DNS name\<close>

text \<open>
  The resolver library (\<^verbatim>\<open>res_query\<close> and the \<^verbatim>\<open>ns_*\<close> parser) is a parameter of the model.
  \<^item> \<open>res_query\<close> gives, for the queried name, the value returned and the contents of the
    array \<^verbatim>\<open>answer\<close> after the call;
  \<^item> \<open>ns_initparse\<close> gives the parsed message, \<open>None\<close> when it returns a value other than 0;
  \<^item> \<open>ns_msg_count\<close> is the number of records of the answer section;
  \<^item> \<open>ns_parserr\<close> gives the record of the answer section at an index, \<open>None\<close> when it
    returns a value other than 0;
  \<^item> \<open>ns_rr_rdata\<close> is the record's data pointer, as an offset into \<^verbatim>\<open>answer\<close>.
\<close>

record ('m, 'r) resolv =
  res_query :: "string \<Rightarrow> int \<times> string"
  ns_initparse :: "string \<Rightarrow> int \<Rightarrow> 'm option"
  ns_msg_count :: "'m \<Rightarrow> nat"
  ns_parserr :: "'m \<Rightarrow> nat \<Rightarrow> 'r option"
  ns_rr_rdata :: "'r \<Rightarrow> nat"

definition peek :: "string \<Rightarrow> nat \<Rightarrow> char option" where
  \<comment> \<open>\<^verbatim>\<open>buf[i]\<close>, read\<close>
  "peek buf i = (if i < length buf then Some (buf ! i) else None)"

definition memcpy :: "string \<Rightarrow> string \<Rightarrow> nat \<Rightarrow> nat \<Rightarrow> string option" where
  \<comment> \<open>\<^verbatim>\<open>memcpy(dst, src + off, n)\<close>\<close>
  "memcpy dst src off n =
     (if off + n \<le> length src then store dst 0 (take n (drop off src)) else None)"

definition not_rde :: "string \<Rightarrow> nat \<Rightarrow> bool option" where
  \<comment> \<open>the condition of the \<^verbatim>\<open>continue\<close>, its disjuncts read from left to right\<close>
  "not_rde answer rdata =
     (case peek answer (rdata + 1) of
        None \<Rightarrow> None
      | Some c1 \<Rightarrow>
          if c1 \<noteq> CHR ''R'' then Some True
          else
            (case peek answer (rdata + 2) of
               None \<Rightarrow> None
             | Some c2 \<Rightarrow>
                 if c2 \<noteq> CHR ''D'' then Some True
                 else
                   (case peek answer (rdata + 3) of
                      None \<Rightarrow> None
                    | Some c3 \<Rightarrow>
                        if c3 \<noteq> CHR ''E'' then Some True
                        else
                          (case peek answer (rdata + 4) of
                             None \<Rightarrow> None
                           | Some c4 \<Rightarrow> Some (c4 \<noteq> CHR '':'')))))"

definition copy_controller :: "string \<Rightarrow> int \<Rightarrow> string \<Rightarrow> nat \<Rightarrow> (int \<times> string) option" where
  \<comment> \<open>the statements after the \<^verbatim>\<open>continue\<close>, up to \<^verbatim>\<open>return(0)\<close>\<close>
  "copy_controller result maxres answer rdata =
     (case peek answer rdata of
        None \<Rightarrow> None
      | Some l \<Rightarrow>
          let maxres1 = (if of_char l < maxres then of_char l else maxres);
              maxres2 = maxres1 - 4
          in (case memcpy result answer (rdata + 5) (size_t maxres2) of
                None \<Rightarrow> None
              | Some result1 \<Rightarrow>
                  (case poke result1 maxres2 NUL of
                     None \<Rightarrow> None
                   | Some result2 \<Rightarrow> Some (0, result2))))"

function rr_loop ::
  "('m, 'r) resolv \<Rightarrow> 'm \<Rightarrow> string \<Rightarrow> string \<Rightarrow> int \<Rightarrow> nat \<Rightarrow> nat \<Rightarrow> (int \<times> string) option" where
  "rr_loop rs msg answer result maxres msg_count i =
     (if i < msg_count then
        (case ns_parserr rs msg i of
           None \<Rightarrow> Some (- 4, result)
         | Some rr \<Rightarrow>
             (case not_rde answer (ns_rr_rdata rs rr) of
                None \<Rightarrow> None
              | Some skip \<Rightarrow>
                  if skip then rr_loop rs msg answer result maxres msg_count (Suc i)
                  else copy_controller result maxres answer (ns_rr_rdata rs rr)))
      else Some (1, result))"
  by pat_completeness auto
termination
  by (relation "measure (\<lambda>(rs, msg, answer, result, maxres, msg_count, i). msg_count - i)") auto

declare rr_loop.simps [simp del]

definition rpp_getcontroller ::
  "('m, 'r) resolv \<Rightarrow> string \<Rightarrow> int \<Rightarrow> string \<Rightarrow> (int \<times> string) option" where
  "rpp_getcontroller rs result maxres revname =
     (case res_query rs revname of
        (i, answer) \<Rightarrow>
          if i < 0 then Some (1, result)
          else
            (case ns_initparse rs answer i of
               None \<Rightarrow> Some (- 3, result)
             | Some msg \<Rightarrow>
                 if ns_msg_count rs msg = 0 then Some (1, result)
                 else rr_loop rs msg answer result maxres (ns_msg_count rs msg) 0))"

section \<open>\<^verbatim>\<open>advertise_inpref_to_remote_dst\<close>: sending the preferences\<close>

text \<open>
  What the process does to the outside is a list of events, in order: a line written to the
  standard output, or a socket call with its arguments and the value it returned. The
  socket layer is a parameter: the value of \<^verbatim>\<open>inet_addr\<close> on a text, the value returned by
  \<^verbatim>\<open>socket\<close>, by \<^verbatim>\<open>connect\<close> for an address and a port, by the \<open>k\<close>-th \<^verbatim>\<open>send\<close> of the connection
  for its data, and the text of \<^verbatim>\<open>strerror(errno)\<close> after a failed call.
\<close>

datatype event =
  Stdout string
  | Socket int
  | Connect int "32 word" nat int
  | Send int string bool int
  | Close int

record net =
  inet_addr :: "string \<Rightarrow> 32 word"
  socket_ret :: int
  connect_ret :: "32 word \<Rightarrow> nat \<Rightarrow> int"
  send_ret :: "nat \<Rightarrow> string \<Rightarrow> int"
  strerror_errno :: string

definition TAB :: string where
  "TAB = [CHR 0x09]"

definition CRLF :: string where
  "CRLF = [CHR 0x0D, CHR 0x0A]"

definition send_failed :: "net \<Rightarrow> string \<Rightarrow> event" where
  "send_failed nt servstringaddr =
     Stdout (''ERROR: failed to send routing prefs to '' @ servstringaddr @ '' (''
               @ strerror_errno nt @ '')\<newline>'')"

definition to_unsigned :: "nat \<Rightarrow> int" where
  \<comment> \<open>the cast \<^verbatim>\<open>(unsigned)\<close> of a \<^verbatim>\<open>size_t\<close>\<close>
  "to_unsigned n = int (n mod 2 ^ 32)"

definition advertise_inpref_to_remote_dst ::
  "net \<Rightarrow> string \<Rightarrow> int \<Rightarrow> string \<Rightarrow> string \<Rightarrow> (int \<times> event list) option" where
  "advertise_inpref_to_remote_dst nt locpreflist ttl servstringaddr preflist =
     (let s_addr = inet_addr nt servstringaddr;
          sock = socket_ret nt;
          ev0 = [Socket sock]
      in if sock < 0 then
           Some (- 1, ev0 @ [Stdout (''ERROR: socket() call failed ('' @ strerror_errno nt @ '')\<newline>'')])
         else
           let c = connect_ret nt s_addr 4343;
               ev1 = ev0 @ [Connect sock s_addr 4343 c]
           in if c < 0 then
                Some (- 2, ev1 @ [Stdout (''ERROR: connection to the remote controller failed (''
                                            @ strerror_errno nt @ '')\<newline>'')])
              else
                let buff = ''SETINPREF '' @ fmt_d ttl @ TAB in
                if 64 \<le> length buff then None
                else
                  let r1 = send_ret nt 0 buff;
                      ev2 = ev1 @ [Send sock buff True r1]
                  in if r1 \<noteq> int (length buff) then
                       Some (- 3, ev2 @ [send_failed nt servstringaddr, Close sock])
                     else
                       let r2 = send_ret nt 1 locpreflist;
                           ev3 = ev2 @ [Send sock locpreflist True r2]
                       in if r2 \<noteq> to_unsigned (length locpreflist) then
                            Some (- 4, ev3 @ [send_failed nt servstringaddr, Close sock])
                          else
                            let r3 = send_ret nt 2 TAB;
                                ev4 = ev3 @ [Send sock TAB True r3]
                            in if r3 \<noteq> 1 then
                                 Some (- 5, ev4 @ [send_failed nt servstringaddr, Close sock])
                               else
                                 let r4 = send_ret nt 3 preflist;
                                     ev5 = ev4 @ [Send sock preflist True r4]
                                 in if r4 \<noteq> to_unsigned (length preflist) then
                                      Some (- 6, ev5 @ [send_failed nt servstringaddr, Close sock])
                                    else
                                      let r5 = send_ret nt 4 CRLF;
                                          ev6 = ev5 @ [Send sock CRLF False r5]
                                      in if r5 \<noteq> 2 then
                                           Some (- 7, ev6 @ [send_failed nt servstringaddr, Close sock])
                                         else Some (0, ev6 @ [Close sock]))"

text \<open>
  The bytes that went out on a connection: of each \<^verbatim>\<open>send\<close>, as many bytes of its data as the
  call reported sent.
\<close>

fun sent_bytes :: "event list \<Rightarrow> string" where
  "sent_bytes [] = []"
| "sent_bytes (Send sock bs flag r # es) = take (nat r) bs @ sent_bytes es"
| "sent_bytes (e # es) = sent_bytes es"

text \<open>
  The sockets that are open after a list of events, given those open before: \<^verbatim>\<open>socket\<close> opens
  the descriptor it returns (when it is not negative) and \<^verbatim>\<open>close\<close> releases its argument.
\<close>

fun open_after :: "int list \<Rightarrow> event list \<Rightarrow> int list" where
  "open_after os [] = os"
| "open_after os (Socket sock # es) = open_after (if 0 \<le> sock then os @ [sock] else os) es"
| "open_after os (Close sock # es) = open_after (remove1 sock os) es"
| "open_after os (e # es) = open_after os es"

section \<open>\<^verbatim>\<open>main\<close>\<close>

definition SQ :: string where
  \<comment> \<open>a single quote\<close>
  "SQ = [CHR 0x27]"

definition printhelp :: "event list" where
  "printhelp =
     [Stdout (''rpp version 20160429 Copyright (C) 2016 Border 6 S.A.S\<newline>''
        @ ''\<newline>''
        @ ''rpp is a simple tool that allows to resolve and interact with remote RDE\<newline>''
        @ ''controllers.\<newline>''
        @ ''\<newline>''
        @ ''usage: rpp resolve|advertise remoteprefix [localprefixes preflist]\<newline>''
        @ ''\<newline>''
        @ ''where:\<newline>''
        @ SQ @ ''localprefixes'' @ SQ
        @ '' is the list of the prefixes advertised by the local AS.\<newline>''
        @ ''\<newline>''
        @ SQ @ ''preflist'' @ SQ @ '' is to be provided only for the '' @ SQ @ ''advertise'' @ SQ
        @ '' action. it should\<newline>''
        @ ''be a single argument that contains the list of preffered ASes with weights to\<newline>''
        @ ''be advertised to the remote controller.\<newline>''
        @ ''\<newline>''),
      Stdout (''examples:\<newline>''
        @ ''  rpp resolve 203.0.113.0/24\<newline>''
        @ ''  rpp advertise 203.0.113.0/24 '' @ SQ @ ''192.0.2.0/24 198.51.100.0/24'' @ SQ
        @ '' '' @ SQ @ ''64552:0 64900:255 65001:127'' @ SQ @ ''\<newline>''
        @ ''\<newline>'')]"

datatype action = RESOLVE | ADVERTISE

text \<open>
  The loop that copies \<^verbatim>\<open>prefixorg\<close> into \<^verbatim>\<open>prefix\<close> up to a slash, the end of the text or
  127 characters; the second argument is the counter \<^verbatim>\<open>x\<close>.
\<close>

fun cut_prefix :: "string \<Rightarrow> nat \<Rightarrow> string" where
  "cut_prefix [] x = []"
| "cut_prefix (c # cs) x = (if c \<noteq> CHR ''/'' \<and> x < 127 then c # cut_prefix cs (Suc x) else [])"

definition report :: "int \<Rightarrow> string \<Rightarrow> string \<Rightarrow> event option" where
  \<comment> \<open>the line printed after \<^verbatim>\<open>rpp_getcontroller\<close> has returned \<open>i\<close>\<close>
  "report i prefixorg rdeaddr =
     (if i = 0 then
        (case c_str rdeaddr of
           None \<Rightarrow> None
         | Some a \<Rightarrow> Some (Stdout (''RDE controller for '' @ prefixorg @ '' is '' @ a @ ''\<newline>'')))
      else if i > 0 then Some (Stdout (''No RDE entry found for '' @ prefixorg @ ''\<newline>''))
      else Some (Stdout (''ERROR: DNS failure ('' @ fmt_d i @ '')\<newline>'')))"

text \<open>
  \<^verbatim>\<open>main\<close> takes the library parameters, the contents that the arrays \<^verbatim>\<open>revdns\<close> and
  \<^verbatim>\<open>rdeaddr\<close> (128 characters each, not initialised by the program) have when it starts,
  and \<^verbatim>\<open>argv\<close>; it gives the exit status and the events.
\<close>

definition main ::
  "inet_pton_t \<Rightarrow> ('m, 'r) resolv \<Rightarrow> net \<Rightarrow> string \<Rightarrow> string \<Rightarrow> string list
     \<Rightarrow> (int \<times> event list) option" where
  "main inet_pton rs nt revdns rdeaddr argv =
     (if \<not> (length argv = 3 \<and> argv ! 1 = ''resolve'')
         \<and> \<not> (length argv = 5 \<and> argv ! 1 = ''advertise'')
      then Some (1, printhelp)
      else
        let action = (if length argv = 3 \<and> argv ! 1 = ''resolve'' then RESOLVE else ADVERTISE);
            prefixorg = argv ! 2;
            prefix = cut_prefix prefixorg 0
        in (case ip2revdns inet_pton (Ptr revdns) 128 (Ptr prefix) of
              None \<Rightarrow> None
            | Some (st, NULL) \<Rightarrow> None
            | Some (st, Ptr revdns') \<Rightarrow>
                if st \<noteq> 0 then
                  Some (1, [Stdout (''ERROR: failed to compute a reverse DNS for '' @ SQ
                                     @ prefixorg @ SQ @ ''\<newline>'')])
                else
                  (case c_str revdns' of
                     None \<Rightarrow> None
                   | Some revname \<Rightarrow>
                       (case rpp_getcontroller rs rdeaddr 128 revname of
                          None \<Rightarrow> None
                        | Some (i, rdeaddr') \<Rightarrow>
                            (case report i prefixorg rdeaddr' of
                               None \<Rightarrow> None
                             | Some line \<Rightarrow>
                                 if action = RESOLVE then Some (0, [line])
                                 else
                                   (case c_str rdeaddr' of
                                      None \<Rightarrow> None
                                    | Some servstringaddr \<Rightarrow>
                                        (case advertise_inpref_to_remote_dst nt (argv ! 3) 3600
                                                servstringaddr (argv ! 4) of
                                           None \<Rightarrow> None
                                         | Some (r, evs) \<Rightarrow>
                                             Some (0, [line, Stdout ''Sending preferences...\<newline>'']
                                                        @ evs
                                                        @ (if r = 0 then [Stdout ''Done.\<newline>'']
                                                           else [])))))))))"

section \<open>Texts of addresses and names\<close>

definition dotted_quad :: "u8 \<Rightarrow> u8 \<Rightarrow> u8 \<Rightarrow> u8 \<Rightarrow> string" where
  \<comment> \<open>the dotted-quad text of four address bytes, each in decimal without leading zeros\<close>
  "dotted_quad a b c d =
     fmt_dec (unat a) @ ''.'' @ fmt_dec (unat b) @ ''.'' @ fmt_dec (unat c) @ ''.'' @ fmt_dec (unat d)"

definition nibble_labels :: "(nat \<Rightarrow> u8) \<Rightarrow> nat \<Rightarrow> string" where
  \<comment> \<open>for the bytes \<open>k - 1\<close> down to 0: the low nibble, a dot, the high nibble, a dot\<close>
  "nibble_labels a k =
     concat (map (\<lambda>i. [digit (unat (a i AND 0x0F)), CHR ''.'', digit (unat (drop_bit 4 (a i))), CHR ''.''])
                 (rev [0..<k]))"

section \<open>Library behaviours for concrete runs\<close>

text \<open>
  A table of \<^verbatim>\<open>inet_pton\<close> on a few texts: every text but these fails to convert.
\<close>

definition sample_inet_pton :: inet_pton_t where
  "sample_inet_pton fam s =
     (if fam = AF_INET \<and> s = ''203.0.113.1'' then Some (\<lambda>i. [203, 0, 113, 1] ! i)
      else if fam = AF_INET \<and> s = ''203.0.113.0'' then Some (\<lambda>i. [203, 0, 113, 0] ! i)
      else if fam = AF_INET6 \<and> s = ''::1'' then Some (\<lambda>i. if i = 15 then 1 else 0)
      else if fam = AF_INET6 \<and> s = ''0::1'' then Some (\<lambda>i. if i = 15 then 1 else 0)
      else if fam = AF_INET6 \<and> s = ''::1.2.3.4''
        then Some (\<lambda>i. if i = 12 then 1 else if i = 13 then 2 else if i = 14 then 3
                        else if i = 15 then 4 else 0)
      else None)"

text \<open>
  A resolver whose answers are scripted: the value \<^verbatim>\<open>res_query\<close> returns and the contents of
  \<^verbatim>\<open>answer\<close>, whether \<^verbatim>\<open>ns_initparse\<close> accepts the message, and for each record of the answer
  section the offset of its data, or \<open>None\<close> when \<^verbatim>\<open>ns_parserr\<close> fails on it.
\<close>

definition scripted_resolv :: "int \<Rightarrow> string \<Rightarrow> bool \<Rightarrow> nat option list \<Rightarrow> (nat option list, nat) resolv" where
  "scripted_resolv len answer parses rrs =
     \<lparr> res_query = (\<lambda>name. (len, answer)),
       ns_initparse = (\<lambda>a l. if parses then Some rrs else None),
       ns_msg_count = length,
       ns_parserr = (\<lambda>m i. if i < length m then m ! i else None),
       ns_rr_rdata = (\<lambda>rr. rr) \<rparr>"

text \<open>
  The data of two TXT records, one after the other: the character-string \<open>foobar\<close> at offset
  0 and the character-string \<open>RDE:192.0.2.55\<close> at offset 7, each after its length byte.
\<close>

definition sample_answer :: string where
  "sample_answer = [CHR 0x06] @ ''foobar'' @ [CHR 0x0E] @ ''RDE:192.0.2.55''"

text \<open>
  The data of one TXT record made of two character-strings, \<open>RDE\<close> (length byte 3) and a
  string of 58 characters (length byte \<open>0x3A\<close>, the code of the colon).
\<close>

definition short_tag_answer :: string where
  "short_tag_answer = [CHR 0x03] @ ''RDE'' @ [CHR 0x3A] @ replicate 58 CHR ''x''"

text \<open>
  A socket layer whose calls are scripted: \<^verbatim>\<open>socket\<close> and \<^verbatim>\<open>connect\<close> return the given values
  and the \<open>k\<close>-th \<^verbatim>\<open>send\<close> sends everything when \<open>k\<close> is below the given number of good sends,
  and fails with -1 from there on.
\<close>

definition scripted_net :: "int \<Rightarrow> int \<Rightarrow> nat \<Rightarrow> net" where
  "scripted_net sock conn good =
     \<lparr> inet_addr = (\<lambda>s. if s = ''192.0.2.55'' then 0xC0000237 else 0xFFFFFFFF),
       socket_ret = sock,
       connect_ret = (\<lambda>a p. conn),
       send_ret = (\<lambda>k bs. if k < good then int (length bs) else - 1),
       strerror_errno = ''Connection refused'' \<rparr>"

section \<open>Formatting and buffers\<close>

lemma digit_dec: "d < 10 \<Longrightarrow> digit d \<in> set ''0123456789''"
proof -
  assume "d < 10"
  then have "d \<in> {0,1,2,3,4,5,6,7,8,9}" by auto
  then show ?thesis by (auto simp: digit_def)
qed

lemma fmt_dec_chars: "set (fmt_dec n) \<subseteq> set ''0123456789''"
proof (induction n rule: fmt_dec.induct)
  case (1 n)
  show ?case
  proof (cases "n < 10")
    case True
    then show ?thesis using digit_dec [of n] by (subst fmt_dec.simps) simp
  next
    case False
    have "n mod 10 < 10" by simp
    then have "digit (n mod 10) \<in> set ''0123456789''" by (rule digit_dec)
    with False 1 show ?thesis by (subst fmt_dec.simps) simp
  qed
qed

lemma fmt_dec_no_NUL: "NUL \<notin> set (fmt_dec n)"
  using fmt_dec_chars [of n] by (auto simp: NUL_def)

lemma fmt_dec_length_pos: "0 < length (fmt_dec n)"
  by (subst fmt_dec.simps) simp

lemma fmt_dec_length_u8: "n < 256 \<Longrightarrow> length (fmt_dec n) \<le> 3"
proof -
  assume n: "n < 256"
  have step: "\<And>m. fmt_dec m = (if m < 10 then [digit m] else fmt_dec (m div 10) @ [digit (m mod 10)])"
    by (subst fmt_dec.simps) simp
  have "n div 10 div 10 < 10" using n by simp
  then show ?thesis
    by (subst step, simp, subst step, simp, subst step, simp)
qed

lemma fmt_d_uint: "fmt_d (uint (x::u8)) = fmt_dec (unat x)"
  by (simp add: fmt_d_def)

lemma dotted_quad_family: "ipfamily_of (dotted_quad a b c d) = AF_INET"
proof -
  let ?p = "fmt_dec (unat a)"
  have "unat a < 256" using unsigned_less [of a] by simp
  then have "length ?p \<le> 3" by (rule fmt_dec_length_u8)
  moreover have "0 < length ?p" by (rule fmt_dec_length_pos)
  ultimately have "length ?p = 1 \<or> length ?p = 2 \<or> length ?p = 3" by arith
  moreover have "dotted_quad a b c d ! length ?p = CHR ''.''"
    by (simp add: dotted_quad_def nth_append)
  ultimately show ?thesis
    by (auto simp: ipfamily_of_def)
qed

lemma dotted_quad_length: "4 \<le> length (dotted_quad a b c d)"
  using fmt_dec_length_pos [of "unat a"]
  by (cases "fmt_dec (unat a)") (simp_all add: dotted_quad_def)

lemma snprintf_fits:
  "int (length s) < reslen \<Longrightarrow> reslen \<le> int (length buf) \<Longrightarrow> reslen < 2 ^ 31 \<Longrightarrow>
   snprintf buf 0 (size_t reslen) s = Some (int (length s), s @ [NUL] @ drop (length s + 1) buf)"
  by (simp add: snprintf_def size_t_def store_def)

lemma c_str_terminated: "NUL \<notin> set s \<Longrightarrow> c_str (s @ [NUL] @ t) = Some s"
proof -
  assume "NUL \<notin> set s"
  then have "takeWhile (\<lambda>c. c \<noteq> NUL) (s @ [NUL] @ t) = s"
    by (induction s) auto
  then show ?thesis by (simp add: c_str_def)
qed

section \<open>The reverse name of an IPv4 address\<close>

text \<open>
  Claim C1. For the address bytes \<open>a\<close>, \<open>b\<close>, \<open>c\<close>, \<open>d\<close> and their dotted-quad text \<open>a.b.c.d\<close>
  (each byte in decimal without leading zeros), which \<^verbatim>\<open>inet_pton\<close> converts under \<open>AF_INET\<close> to
  these four bytes: when the capacity \<^verbatim>\<open>reslen\<close> (an \<^verbatim>\<open>int\<close>) exceeds the length of
  \<open>d.c.b.a.in-addr.arpa\<close> and does not exceed the size of the array, \<^verbatim>\<open>ip2revdns\<close> returns 0 and the array holds exactly
  the text \<open>d.c.b.a.in-addr.arpa\<close> and its terminator; the rest of the array is untouched.
\<close>

theorem ip2revdns_ipv4:
  assumes pton: "inet_pton AF_INET (dotted_quad a b c d) = Some addr"
    and bytes: "addr 0 = a" "addr 1 = b" "addr 2 = c" "addr 3 = d"
    and room: "int (length (dotted_quad d c b a @ ''.in-addr.arpa'')) < reslen"
    and cap: "reslen \<le> int (length buf)" "reslen < 2 ^ 31"
  shows "ip2revdns inet_pton (Ptr buf) reslen (Ptr (dotted_quad a b c d))
           = Some (0, Ptr (dotted_quad d c b a @ ''.in-addr.arpa'' @ [NUL]
                            @ drop (length (dotted_quad d c b a @ ''.in-addr.arpa'') + 1) buf))
         \<and> c_str (dotted_quad d c b a @ ''.in-addr.arpa'' @ [NUL]
                   @ drop (length (dotted_quad d c b a @ ''.in-addr.arpa'') + 1) buf)
           = Some (dotted_quad d c b a @ ''.in-addr.arpa'')"
proof -
  let ?name = "dotted_quad d c b a @ ''.in-addr.arpa''"
  have fmt: "fmt_inaddr addr = ?name"
    unfolding fmt_inaddr_def dotted_quad_def bytes fmt_d_uint by simp
  have sn: "snprintf buf 0 (size_t reslen) ?name
              = Some (int (length ?name), ?name @ [NUL] @ drop (length ?name + 1) buf)"
    using room cap by (rule snprintf_fits)
  have run: "ip2revdns inet_pton (Ptr buf) reslen (Ptr (dotted_quad a b c d))
               = Some (0, Ptr (?name @ [NUL] @ drop (length ?name + 1) buf))"
    using dotted_quad_length [of a b c d] sn
    by (simp add: ip2revdns_def dotted_quad_family pton fmt)
  have "NUL \<notin> set ?name"
    by (simp add: dotted_quad_def fmt_dec_no_NUL) (simp add: NUL_def)
  then have "c_str (?name @ [NUL] @ drop (length ?name + 1) buf) = Some ?name"
    by (rule c_str_terminated)
  with run show ?thesis by simp
qed

text \<open>The example of the specification: \<open>203.0.113.1\<close> gives \<open>1.113.0.203.in-addr.arpa\<close>.\<close>

lemma dotted_quad_example: "dotted_quad 203 0 113 1 = ''203.0.113.1''"
  by (simp add: dotted_quad_def fmt_dec.simps digit_def)

lemma dotted_quad_example_rev: "dotted_quad 1 113 0 203 = ''1.113.0.203''"
  by (simp add: dotted_quad_def fmt_dec.simps digit_def)

theorem ip2revdns_ipv4_witness:
  "ip2revdns sample_inet_pton (Ptr (replicate 32 CHR ''#'')) 32 (Ptr ''203.0.113.1'')
     = Some (0, Ptr (''1.113.0.203.in-addr.arpa'' @ [NUL] @ replicate 7 CHR ''#''))
   \<and> c_str (''1.113.0.203.in-addr.arpa'' @ [NUL] @ replicate 7 CHR ''#'')
       = Some ''1.113.0.203.in-addr.arpa''"
  using ip2revdns_ipv4 [of sample_inet_pton 203 0 113 1 "\<lambda>i. [203, 0, 113, 1] ! i" 32
                           "replicate 32 CHR ''#''"]
  by (simp add: dotted_quad_example dotted_quad_example_rev sample_inet_pton_def)

section \<open>The reverse name of an IPv6 address\<close>

lemma digit_hex: "d < 16 \<Longrightarrow> digit d \<in> set ''0123456789abcdef''"
proof -
  assume "d < 16"
  then have "d = 0 \<or> d = 1 \<or> d = 2 \<or> d = 3 \<or> d = 4 \<or> d = 5 \<or> d = 6 \<or> d = 7 \<or> d = 8
      \<or> d = 9 \<or> d = 10 \<or> d = 11 \<or> d = 12 \<or> d = 13 \<or> d = 14 \<or> d = 15" by arith
  then show ?thesis by (auto simp: digit_def)
qed

lemma digit_not_NUL: "d < 16 \<Longrightarrow> digit d \<noteq> NUL"
  using digit_hex [of d] by (auto simp: NUL_def)

lemma low_nibble_less: "unat ((b::u8) AND 0x0F) < 16"
proof -
  have "b AND 0x0F = take_bit 4 b"
    by (simp add: take_bit_eq_mask mask_eq_exp_minus_1)
  moreover have "unat (take_bit 4 b) < 2 ^ 4"
    using take_bit_nat_less_exp [of 4 "unat b"] by (simp add: unsigned_take_bit_eq)
  ultimately show ?thesis by simp
qed

lemma high_nibble_less: "unat (drop_bit 4 (b::u8)) < 16"
proof -
  have "unat b < 256" using unsigned_less [of b] by simp
  then have "unat b div 16 < 16" by arith
  then show ?thesis by (simp add: drop_bit_eq_div unat_div)
qed

lemma fmt_x_nibble: "unat (w::u8) < 16 \<Longrightarrow> fmt_x (uint w) = [digit (unat w)]"
proof -
  assume w: "unat w < 16"
  have "0 \<le> uint w" "uint w < 2 ^ 32"
    using unsigned_less [of w, where 'a = int] by simp_all
  then have "uint w mod 2 ^ 32 = uint w" by simp
  then have "fmt_x (uint w) = fmt_hex (unat w)"
    by (simp only: fmt_x_def nat_uint_eq)
  also have "\<dots> = [digit (unat w)]"
    using w by (subst fmt_hex.simps) simp
  finally show ?thesis .
qed

lemma fmt_nibbles_eq:
  "fmt_nibbles b = [digit (unat (b AND 0x0F)), CHR ''.'', digit (unat (drop_bit 4 b)), CHR ''.'']"
  by (simp add: fmt_nibbles_def fmt_x_nibble low_nibble_less high_nibble_less)

lemma nibble_labels_Suc: "nibble_labels a (Suc i) = fmt_nibbles (a i) @ nibble_labels a i"
  by (simp add: nibble_labels_def fmt_nibbles_eq)

lemma nibble_labels_length: "length (nibble_labels a k) = 4 * k"
  by (induction k) (simp_all add: nibble_labels_Suc fmt_nibbles_eq, simp add: nibble_labels_def)

lemma nibble_labels_no_NUL: "NUL \<notin> set (nibble_labels a k)"
proof (induction k)
  case 0
  show ?case by (simp add: nibble_labels_def)
next
  case (Suc k)
  then show ?case
    using digit_not_NUL [OF low_nibble_less [of "a k"]] digit_not_NUL [OF high_nibble_less [of "a k"]]
    by (simp add: nibble_labels_Suc fmt_nibbles_eq) (simp add: NUL_def)
qed

lemma snprintf_at_fits:
  assumes "0 \<le> rlen" "rlen + int (length s) < reslen" "reslen \<le> int (length buf)" "reslen < 2 ^ 31"
  shows "snprintf buf (nat rlen) (size_t (reslen - rlen)) s
           = Some (int (length s), take (nat rlen) buf @ s @ [NUL] @ drop (nat rlen + length s + 1) buf)"
proof -
  have n: "size_t (reslen - rlen) = nat (reslen - rlen)"
    using assms by (simp add: size_t_def)
  have "length s \<le> nat (reslen - rlen) - 1" using assms by arith
  then have t: "take (nat (reslen - rlen) - 1) s = s" by simp
  have "nat rlen + (length s + 1) \<le> length buf" using assms by arith
  then show ?thesis
    using assms by (simp add: snprintf_def n t store_def)
qed

lemma drop_past_write:
  "length pre = m \<Longrightarrow> m \<le> j \<Longrightarrow> drop j (pre @ drop m buf) = drop j buf"
  by simp 

lemma ip6_loop_fits:
  "0 \<le> rlen \<Longrightarrow> rlen + 4 * int k < reslen \<Longrightarrow> reslen \<le> int (length buf) \<Longrightarrow> reslen < 2 ^ 31 \<Longrightarrow>
   \<exists>buf'. ip6_loop a reslen k rlen buf = Some (Inr (rlen + 4 * int k, buf'))
      \<and> length buf' = length buf
      \<and> take (nat rlen + 4 * k) buf' = take (nat rlen) buf @ nibble_labels a k
      \<and> drop (nat rlen + 4 * k + 1) buf' = drop (nat rlen + 4 * k + 1) buf"
proof (induction k arbitrary: rlen buf)
  case 0
  then show ?case by (simp add: nibble_labels_def)
next
  case (Suc k)
  let ?s = "fmt_nibbles (a k)"
  let ?r = "nat rlen"
  let ?buf1 = "take ?r buf @ ?s @ [NUL] @ drop (?r + length ?s + 1) buf"
  have len_s: "length ?s = 4" by (simp add: fmt_nibbles_eq)
  have sn: "snprintf buf ?r (size_t (reslen - rlen)) ?s = Some (int (length ?s), ?buf1)"
    using Suc.prems by (intro snprintf_at_fits) (simp_all add: len_s)
  have r5: "?r + 5 \<le> length buf" using Suc.prems by arith
  then have len1: "length ?buf1 = length buf" by (simp add: len_s)
  have "\<exists>buf'. ip6_loop a reslen k (rlen + 4) ?buf1 = Some (Inr (rlen + 4 + 4 * int k, buf'))
      \<and> length buf' = length ?buf1
      \<and> take (nat (rlen + 4) + 4 * k) buf' = take (nat (rlen + 4)) ?buf1 @ nibble_labels a k
      \<and> drop (nat (rlen + 4) + 4 * k + 1) buf' = drop (nat (rlen + 4) + 4 * k + 1) ?buf1"
    using Suc.prems len1 by (intro Suc.IH) simp_all
  then obtain buf' where
    run: "ip6_loop a reslen k (rlen + 4) ?buf1 = Some (Inr (rlen + 4 + 4 * int k, buf'))"
    and len': "length buf' = length ?buf1"
    and tk: "take (nat (rlen + 4) + 4 * k) buf' = take (nat (rlen + 4)) ?buf1 @ nibble_labels a k"
    and dr: "drop (nat (rlen + 4) + 4 * k + 1) buf' = drop (nat (rlen + 4) + 4 * k + 1) ?buf1"
    by blast
  have r4: "nat (rlen + 4) = ?r + 4" using Suc.prems by simp
  have pre: "take (?r + 4) ?buf1 = take ?r buf @ ?s"
    using r5 by (simp add: len_s)
  have "drop (?r + 4 + 4 * k + 1) ?buf1 = drop (?r + 4 + 4 * k + 1) buf"
  proof -
    have "?buf1 = (take ?r buf @ ?s @ [NUL]) @ drop (?r + 5) buf" by (simp add: len_s add.commute)
    moreover have "length (take ?r buf @ ?s @ [NUL]) = ?r + 5" using r5 by (simp add: len_s)
    ultimately show ?thesis
      using drop_past_write [of "take ?r buf @ ?s @ [NUL]" "?r + 5" "?r + 4 + 4 * k + 1" buf]
      by simp
  qed
  with dr have dr': "drop (?r + 4 * Suc k + 1) buf' = drop (?r + 4 * Suc k + 1) buf"
    by (simp add: r4 add.assoc)
  have idx: "?r + 4 * Suc k = ?r + 4 + 4 * k" by simp
  have "take (?r + 4 + 4 * k) buf' = take (?r + 4) ?buf1 @ nibble_labels a k"
    using tk unfolding r4 .
  then have "take (?r + 4 + 4 * k) buf' = (take ?r buf @ ?s) @ nibble_labels a k"
    by (simp only: pre)
  then have tk': "take (?r + 4 * Suc k) buf' = take ?r buf @ nibble_labels a (Suc k)"
    by (simp only: idx nibble_labels_Suc append_assoc)
  have "ip6_loop a reslen (Suc k) rlen buf = Some (Inr (rlen + 4 * int (Suc k), buf'))"
    using Suc.prems sn run by (simp add: len_s algebra_simps)
  with len' len1 tk' dr' show ?case by simp
qed

text \<open>
  Claim C2, amended. For a text of at least 4 characters that has no dot at index 1, 2 or 3
  and that \<^verbatim>\<open>inet_pton\<close> converts under \<open>AF_INET6\<close>: when the capacity \<^verbatim>\<open>reslen\<close> (an \<^verbatim>\<open>int\<close>) is at
  least 73 and does not exceed the size of the array, \<^verbatim>\<open>ip2revdns\<close> returns 0 and the array holds, for the
  bytes 15 down to 0 of the address, the low nibble, a dot, the high nibble, a dot (64
  characters, 32 labels), then \<open>ip6.arpa\<close> and the terminator; the rest of the array is
  untouched.
\<close>

theorem ip2revdns_ipv6:
  assumes len: "4 \<le> length orig"
    and nodot: "orig ! 1 \<noteq> CHR ''.''" "orig ! 2 \<noteq> CHR ''.''" "orig ! 3 \<noteq> CHR ''.''"
    and pton: "inet_pton AF_INET6 orig = Some addr"
    and room: "72 < reslen"
    and cap: "reslen \<le> int (length buf)" "reslen < 2 ^ 31"
  shows "ip2revdns inet_pton (Ptr buf) reslen (Ptr orig)
           = Some (0, Ptr (nibble_labels addr 16 @ ''ip6.arpa'' @ [NUL] @ drop 73 buf))
         \<and> c_str (nibble_labels addr 16 @ ''ip6.arpa'' @ [NUL] @ drop 73 buf)
             = Some (nibble_labels addr 16 @ ''ip6.arpa'')
         \<and> length (nibble_labels addr 16) = 64"
proof -
  let ?labels = "nibble_labels addr 16"
  have fam: "ipfamily_of orig = AF_INET6" using nodot by (simp add: ipfamily_of_def)
  have "\<exists>buf'. ip6_loop addr reslen 16 0 buf = Some (Inr (0 + 4 * int 16, buf'))
      \<and> length buf' = length buf
      \<and> take (nat 0 + 4 * 16) buf' = take (nat 0) buf @ ?labels
      \<and> drop (nat 0 + 4 * 16 + 1) buf' = drop (nat 0 + 4 * 16 + 1) buf"
    using room cap by (intro ip6_loop_fits) simp_all
  then obtain buf' where
    loop: "ip6_loop addr reslen 16 0 buf = Some (Inr (64, buf'))"
    and len': "length buf' = length buf"
    and tk: "take 64 buf' = ?labels"
    and dr: "drop 65 buf' = drop 65 buf"
    by auto
  have "snprintf buf' (nat 64) (size_t (reslen - 64)) ''ip6.arpa''
          = Some (int (length ''ip6.arpa''),
                  take (nat 64) buf' @ ''ip6.arpa'' @ [NUL] @ drop (nat 64 + length ''ip6.arpa'' + 1) buf')"
    using room cap len' by (intro snprintf_at_fits) simp_all
  moreover have "drop 73 buf' = drop 73 buf"
  proof -
    have "drop 73 buf' = drop 8 (drop 65 buf')" by simp
    also have "\<dots> = drop 8 (drop 65 buf)" by (simp only: dr)
    finally show ?thesis by simp
  qed
  ultimately have sn: "snprintf buf' 64 (size_t (reslen - 64)) ''ip6.arpa''
          = Some (8, ?labels @ ''ip6.arpa'' @ [NUL] @ drop 73 buf)"
    by (simp add: tk)
  have run: "ip2revdns inet_pton (Ptr buf) reslen (Ptr orig)
               = Some (0, Ptr (?labels @ ''ip6.arpa'' @ [NUL] @ drop 73 buf))"
    using len room by (simp add: ip2revdns_def fam pton loop sn)
  have "NUL \<notin> set (?labels @ ''ip6.arpa'')"
    by (simp add: nibble_labels_no_NUL) (simp add: NUL_def)
  then have "c_str ((?labels @ ''ip6.arpa'') @ [NUL] @ drop 73 buf) = Some (?labels @ ''ip6.arpa'')"
    by (rule c_str_terminated)
  with run show ?thesis by (simp add: nibble_labels_length)
qed

text \<open>The address \<open>0::1\<close>: the first label is 1 and the other 31 are 0.\<close>

lemma nibble_labels_loopback:
  "nibble_labels (\<lambda>i. if i = 15 then 1 else 0) 16
     = ''1.0.0.0.0.0.0.0.0.0.0.0.0.0.0.0.0.0.0.0.0.0.0.0.0.0.0.0.0.0.0.0.''"
  by (simp add: nibble_labels_def upt_rec [of _ "numeral _"] digit_def)

theorem ip2revdns_ipv6_witness:
  "ip2revdns sample_inet_pton (Ptr (replicate 80 CHR ''#'')) 80 (Ptr ''0::1'')
     = Some (0, Ptr (''1.0.0.0.0.0.0.0.0.0.0.0.0.0.0.0.0.0.0.0.0.0.0.0.0.0.0.0.0.0.0.0.ip6.arpa''
                      @ [NUL] @ replicate 7 CHR ''#''))"
  using ip2revdns_ipv6 [of "''0::1''" sample_inet_pton "\<lambda>i. if i = 15 then 1 else 0" 80
                           "replicate 80 CHR ''#''"]
  by (simp add: nibble_labels_loopback sample_inet_pton_def)

text \<open>
  Claim C2 as stated fails on two valid IPv6 texts, whatever the capacity: \<open>::1\<close>, the example
  of the claim, has 3 characters and is rejected by the length test before any conversion;
  \<open>::1.2.3.4\<close> has a dot at index 3, is converted under \<open>AF_INET\<close> and fails there.
\<close>

theorem ip2revdns_ipv6_counterexample:
  "sample_inet_pton AF_INET6 ''::1'' \<noteq> None
   \<and> ip2revdns sample_inet_pton (Ptr (replicate 80 CHR ''#'')) 80 (Ptr ''::1'')
       = Some (- 1, Ptr ((replicate 80 CHR ''#'')[0 := NUL]))
   \<and> sample_inet_pton AF_INET6 ''::1.2.3.4'' \<noteq> None
   \<and> ip2revdns sample_inet_pton (Ptr (replicate 80 CHR ''#'')) 80 (Ptr ''::1.2.3.4'')
       = Some (- 1, Ptr ((replicate 80 CHR ''#'')[0 := NUL]))"
  by (simp add: sample_inet_pton_def ip2revdns_def fail_zeroed_def poke_def ipfamily_of_def)

section \<open>A capacity that is too small\<close>

text \<open>
  Claim C6 asks that a name longer than the capacity makes \<^verbatim>\<open>ip2revdns\<close> zero the first byte
  and return a non-zero status, on both paths. The IPv4 path ignores the value of
  \<^verbatim>\<open>snprintf\<close>: with a capacity of 10, the address \<open>203.0.113.1\<close>, whose name has 24 characters,
  gives the status 0 and the truncated text \<open>1.113.0.2\<close>.
\<close>

theorem ip2revdns_ipv4_truncates:
  "ip2revdns sample_inet_pton (Ptr (replicate 10 CHR ''#'')) 10 (Ptr ''203.0.113.1'')
     = Some (0, Ptr (''1.113.0.2'' @ [NUL]))"
  by (simp add: sample_inet_pton_def ip2revdns_def ipfamily_of_def fmt_inaddr_def fmt_d_def
        fmt_dec.simps digit_def snprintf_def size_t_def store_def)

text \<open>
  The same holds for every address of the IPv4 path: when the name does not fit, the status
  is 0 and the array holds the first \<open>reslen - 1\<close> characters of the name.
\<close>

lemma ip2revdns_ipv4_too_small:
  assumes len: "4 \<le> length orig"
    and dot: "orig ! 1 = CHR ''.'' \<or> orig ! 2 = CHR ''.'' \<or> orig ! 3 = CHR ''.''"
    and pton: "inet_pton AF_INET orig = Some addr"
    and small: "0 < reslen" "reslen \<le> int (length (fmt_inaddr addr))"
    and cap: "reslen \<le> int (length buf)"
  shows "ip2revdns inet_pton (Ptr buf) reslen (Ptr orig)
           = Some (0, Ptr (take (nat reslen - 1) (fmt_inaddr addr) @ [NUL] @ drop (nat reslen) buf))"
proof -
  have fam: "ipfamily_of orig = AF_INET" using dot by (auto simp: ipfamily_of_def)
  have "reslen \<le> int (length buf)" by (rule cap)
  then have "reslen < 2 ^ 64 \<or> 2 ^ 64 \<le> int (length buf)" by arith
  have n: "nat reslen - 1 < length (fmt_inaddr addr)" using small by arith
  show ?thesis
  proof (cases "reslen < 2 ^ 64")
    case True
    then have sz: "size_t reslen = nat reslen" using small by (simp add: size_t_def)
    have "Suc (nat reslen - 1) = nat reslen" using small by arith
    then have "snprintf buf 0 (size_t reslen) (fmt_inaddr addr)
        = Some (int (length (fmt_inaddr addr)),
                take (nat reslen - 1) (fmt_inaddr addr) @ [NUL] @ drop (nat reslen) buf)"
      using small cap n by (simp add: snprintf_def sz store_def min_absorb2)
    then show ?thesis using len by (simp add: ip2revdns_def fam pton)
  next
    case False
    have "length (fmt_inaddr addr) \<le> 3 + 1 + 3 + 1 + 3 + 1 + 3 + 13"
      using fmt_dec_length_u8 [of "unat (addr 0)"] fmt_dec_length_u8 [of "unat (addr 1)"]
        fmt_dec_length_u8 [of "unat (addr 2)"] fmt_dec_length_u8 [of "unat (addr 3)"]
        unsigned_less [of "addr 0", where 'a = nat] unsigned_less [of "addr 1", where 'a = nat]
        unsigned_less [of "addr 2", where 'a = nat] unsigned_less [of "addr 3", where 'a = nat]
      by (simp add: fmt_inaddr_def fmt_d_uint)
    with small False show ?thesis by simp
  qed
qed

text \<open>
  The IPv6 path does what the claim asks: with a capacity from 1 to 72 it returns -1, the
  first byte of the array is zero, and nothing is written at or after the capacity.
\<close>

lemma snprintf_at_bounded:
  assumes "0 \<le> rlen" "rlen < reslen" "reslen \<le> int (length buf)" "reslen < 2 ^ 31"
  shows "\<exists>b. snprintf buf (nat rlen) (size_t (reslen - rlen)) s = Some (int (length s), b)
           \<and> length b = length buf \<and> drop (nat reslen) b = drop (nat reslen) buf"
proof -
  let ?n = "nat (reslen - rlen)"
  let ?w = "take (?n - 1) s @ [NUL]"
  let ?r = "nat rlen"
  have n: "size_t (reslen - rlen) = ?n" "0 < ?n"
    using assms by (simp_all add: size_t_def)
  have lw: "length ?w \<le> ?n" using n by simp
  then have fit: "?r + length ?w \<le> nat reslen" using assms by arith
  then have fit': "?r + length ?w \<le> length buf" using assms by arith
  let ?b = "take ?r buf @ ?w @ drop (?r + length ?w) buf"
  have run: "snprintf buf ?r (size_t (reslen - rlen)) s = Some (int (length s), ?b)"
    using n fit' by (simp add: snprintf_def store_def)
  have len: "length ?b = length buf" using fit' by simp
  have "?b = (take ?r buf @ ?w) @ drop (?r + length ?w) buf" by simp
  moreover have "length (take ?r buf @ ?w) = ?r + length ?w" using fit' by simp
  ultimately have "drop (nat reslen) ?b = drop (nat reslen) buf"
    using drop_past_write [of "take ?r buf @ ?w" "?r + length ?w" "nat reslen" buf] fit
    by simp
  with run len show ?thesis by blast
qed

lemma poke_first:
  "0 < reslen \<Longrightarrow> reslen \<le> int (length b) \<Longrightarrow>
   poke b 0 NUL = Some (b[0 := NUL]) \<and> (b[0 := NUL]) ! 0 = NUL
     \<and> length (b[0 := NUL]) = length b \<and> drop (nat reslen) (b[0 := NUL]) = drop (nat reslen) b"
proof -
  assume pos: "0 < reslen" and cap: "reslen \<le> int (length b)"
  then have ne: "0 < length b" by arith
  have "0 < nat reslen" using pos by simp
  then have "drop (nat reslen) (b[0 := NUL]) = drop (nat reslen) b"
    by (rule drop_update_cancel)
  with ne show ?thesis by (simp add: poke_def)
qed

lemma ip6_loop_bounded:
  "0 \<le> rlen \<Longrightarrow> rlen < reslen \<Longrightarrow> reslen \<le> int (length buf) \<Longrightarrow> reslen < 2 ^ 31 \<Longrightarrow>
   (\<exists>b. ip6_loop a reslen k rlen buf = Some (Inl b) \<and> reslen \<le> rlen + 4 * int k
          \<and> b ! 0 = NUL \<and> length b = length buf \<and> drop (nat reslen) b = drop (nat reslen) buf)
   \<or> (\<exists>b. ip6_loop a reslen k rlen buf = Some (Inr (rlen + 4 * int k, b)) \<and> rlen + 4 * int k < reslen
          \<and> length b = length buf \<and> drop (nat reslen) b = drop (nat reslen) buf)"
proof (induction k arbitrary: rlen buf)
  case 0
  then show ?case by simp
next
  case (Suc k)
  let ?s = "fmt_nibbles (a k)"
  have len_s: "int (length ?s) = 4" by (simp add: fmt_nibbles_eq)
  obtain b1 where sn: "snprintf buf (nat rlen) (size_t (reslen - rlen)) ?s = Some (4, b1)"
    and len1: "length b1 = length buf" and dr1: "drop (nat reslen) b1 = drop (nat reslen) buf"
    using snprintf_at_bounded [OF Suc.prems, of ?s] len_s by auto
  show ?case
  proof (cases "reslen \<le> rlen + 4")
    case True
    have "0 < reslen" "reslen \<le> int (length b1)" using Suc.prems len1 by simp_all
    from poke_first [OF this] True sn len1 dr1 show ?thesis by simp
  next
    case False
    then have "rlen + 4 < reslen" by simp
    moreover have "0 \<le> rlen + 4" using Suc.prems by simp
    moreover have "reslen \<le> int (length b1)" using Suc.prems len1 by simp
    ultimately have IH:
      "(\<exists>b. ip6_loop a reslen k (rlen + 4) b1 = Some (Inl b) \<and> reslen \<le> rlen + 4 + 4 * int k
          \<and> b ! 0 = NUL \<and> length b = length b1 \<and> drop (nat reslen) b = drop (nat reslen) b1)
       \<or> (\<exists>b. ip6_loop a reslen k (rlen + 4) b1 = Some (Inr (rlen + 4 + 4 * int k, b))
          \<and> rlen + 4 + 4 * int k < reslen
          \<and> length b = length b1 \<and> drop (nat reslen) b = drop (nat reslen) b1)"
      using Suc.prems(4) Suc.IH [of "rlen + 4" b1] by blast
    have step: "ip6_loop a reslen (Suc k) rlen buf = ip6_loop a reslen k (rlen + 4) b1"
      using False sn by simp
    have idx: "rlen + 4 * int (Suc k) = rlen + 4 + 4 * int k" by simp
    from IH show ?thesis
      unfolding step idx len1 dr1 .
  qed
qed

lemma ip2revdns_ipv6_too_small:
  assumes len: "4 \<le> length orig"
    and nodot: "orig ! 1 \<noteq> CHR ''.''" "orig ! 2 \<noteq> CHR ''.''" "orig ! 3 \<noteq> CHR ''.''"
    and pton: "inet_pton AF_INET6 orig = Some addr"
    and small: "0 < reslen" "reslen \<le> 72"
    and cap: "reslen \<le> int (length buf)"
  shows "\<exists>b. ip2revdns inet_pton (Ptr buf) reslen (Ptr orig) = Some (- 1, Ptr b)
           \<and> b ! 0 = NUL \<and> length b = length buf \<and> drop (nat reslen) b = drop (nat reslen) buf"
proof -
  have fam: "ipfamily_of orig = AF_INET6" using nodot by (simp add: ipfamily_of_def)
  have lt: "reslen < 2 ^ 31" using small by simp
  have z: "(0::int) \<le> 0" by simp
  from ip6_loop_bounded [OF z small(1) cap lt, of addr 16]
  consider (early) b where "ip6_loop addr reslen 16 0 buf = Some (Inl b)"
      "b ! 0 = NUL" "length b = length buf" "drop (nat reslen) b = drop (nat reslen) buf"
    | (late) b where "ip6_loop addr reslen 16 0 buf = Some (Inr (64, b))" "64 < reslen"
      "length b = length buf" "drop (nat reslen) b = drop (nat reslen) buf"
    by auto
  then show ?thesis
  proof cases
    case early
    then show ?thesis using len by (simp add: ip2revdns_def fam pton)
  next
    case late
    have "(0::int) \<le> 64" by simp
    moreover have "reslen \<le> int (length b)" using cap late by simp
    ultimately obtain b2 where sn: "snprintf b (nat 64) (size_t (reslen - 64)) ''ip6.arpa'' = Some (8, b2)"
      and len2: "length b2 = length b" and dr2: "drop (nat reslen) b2 = drop (nat reslen) b"
      using snprintf_at_bounded [of 64 reslen b "''ip6.arpa''"] late(2) lt by auto
    have "0 < reslen" "reslen \<le> int (length b2)" using small cap late len2 by simp_all
    from poke_first [OF this] have "fail_zeroed b2 = Some (- 1, Ptr (b2[0 := NUL]))"
      "(b2[0 := NUL]) ! 0 = NUL" "length (b2[0 := NUL]) = length b2"
      "drop (nat reslen) (b2[0 := NUL]) = drop (nat reslen) b2"
      by (simp_all add: fail_zeroed_def)
    then show ?thesis
      using len small(2) late sn len2 dr2 by (simp add: ip2revdns_def fam pton)
  qed
qed

section \<open>Short inputs and the detection of the family\<close>

lemma fmt_inaddr_dotted:
  "fmt_inaddr a = dotted_quad (a 3) (a 2) (a 1) (a 0) @ ''.in-addr.arpa''"
  by (simp add: fmt_inaddr_def dotted_quad_def fmt_d_uint)

lemma ip2revdns_inet_run:
  assumes len: "4 \<le> length orig"
    and dot: "orig ! 1 = CHR ''.'' \<or> orig ! 2 = CHR ''.'' \<or> orig ! 3 = CHR ''.''"
    and pton: "inet_pton AF_INET orig = Some a"
    and room: "int (length (dotted_quad (a 3) (a 2) (a 1) (a 0) @ ''.in-addr.arpa'')) < reslen"
    and cap: "reslen \<le> int (length buf)" "reslen < 2 ^ 31"
  shows "ip2revdns inet_pton (Ptr buf) reslen (Ptr orig)
           = Some (0, Ptr (dotted_quad (a 3) (a 2) (a 1) (a 0) @ ''.in-addr.arpa'' @ [NUL]
               @ drop (length (dotted_quad (a 3) (a 2) (a 1) (a 0) @ ''.in-addr.arpa'') + 1) buf))"
proof -
  let ?name = "dotted_quad (a 3) (a 2) (a 1) (a 0) @ ''.in-addr.arpa''"
  have fam: "ipfamily_of orig = AF_INET" using dot by (auto simp: ipfamily_of_def)
  have "snprintf buf 0 (size_t reslen) ?name
          = Some (int (length ?name), ?name @ [NUL] @ drop (length ?name + 1) buf)"
    using room cap by (rule snprintf_fits)
  then show ?thesis
    using len by (simp add: ip2revdns_def fam pton fmt_inaddr_dotted)
qed

lemma ip2revdns_inet6_run:
  assumes len: "4 \<le> length orig"
    and nodot: "orig ! 1 \<noteq> CHR ''.'' \<and> orig ! 2 \<noteq> CHR ''.'' \<and> orig ! 3 \<noteq> CHR ''.''"
    and pton: "inet_pton AF_INET6 orig = Some a"
    and room: "72 < reslen"
    and cap: "reslen \<le> int (length buf)" "reslen < 2 ^ 31"
  shows "ip2revdns inet_pton (Ptr buf) reslen (Ptr orig)
           = Some (0, Ptr (nibble_labels a 16 @ ''ip6.arpa'' @ [NUL] @ drop 73 buf))"
proof -
  have fam: "ipfamily_of orig = AF_INET6" using nodot by (simp add: ipfamily_of_def)
  have start: "(0::int) \<le> 0" "0 + 4 * int 16 < reslen" using room by simp_all
  from ip6_loop_fits [OF start cap, of a]
  obtain b where loop: "ip6_loop a reslen 16 0 buf = Some (Inr (64, b))"
    and lb: "length b = length buf"
    and tk: "take 64 b = nibble_labels a 16"
    and dr: "drop 65 b = drop 65 buf"
    by auto
  have "(0::int) \<le> 64" "64 + int (length ''ip6.arpa'') < reslen" "reslen \<le> int (length b)"
    using room cap lb by simp_all
  from snprintf_at_fits [OF this cap(2)]
  have sn: "snprintf b 64 (size_t (reslen - 64)) ''ip6.arpa''
              = Some (8, take 64 b @ ''ip6.arpa'' @ [NUL] @ drop 73 b)"
    by simp
  have "drop 73 b = drop 8 (drop 65 b)" by simp
  also have "\<dots> = drop 8 (drop 65 buf)" by (simp only: dr)
  finally have dr73: "drop 73 b = drop 73 buf" by simp
  show ?thesis
    using len room by (simp add: ip2revdns_def fam pton loop sn tk dr73)
qed

text \<open>
  Claim C7. With a result array of at least one byte: an input shorter than 4 characters
  makes \<^verbatim>\<open>ip2revdns\<close> return -1 with the first byte of the array zeroed. An input of at least
  4 characters with a dot at index 1, 2 or 3 is treated as IPv4: the text is converted under
  \<open>AF_INET\<close>; when this conversion fails the result is that error; when it gives the bytes
  \<open>a\<close> and the capacity suffices, the status is 0 and the array holds the \<open>in-addr.arpa\<close> name
  of these bytes; and the result depends on \<^verbatim>\<open>inet_pton\<close> only through the conversion of the
  text under \<open>AF_INET\<close>. An input of at least 4 characters with no dot at these indices is
  treated as IPv6 in the same way: converted under \<open>AF_INET6\<close>, rejected when the conversion
  fails, and given the \<open>ip6.arpa\<close> name of the 16 converted bytes when it succeeds.
\<close>

theorem ip2revdns_family:
  assumes "buf \<noteq> []"
  shows "(length orig < 4 \<longrightarrow>
            ip2revdns inet_pton (Ptr buf) reslen (Ptr orig) = Some (- 1, Ptr (buf[0 := NUL])))
       \<and> (4 \<le> length orig \<and> (orig ! 1 = CHR ''.'' \<or> orig ! 2 = CHR ''.'' \<or> orig ! 3 = CHR ''.'') \<longrightarrow>
            (inet_pton AF_INET orig = None \<longrightarrow>
               ip2revdns inet_pton (Ptr buf) reslen (Ptr orig) = Some (- 1, Ptr (buf[0 := NUL])))
            \<and> (\<forall>a. inet_pton AF_INET orig = Some a
                    \<and> int (length (dotted_quad (a 3) (a 2) (a 1) (a 0) @ ''.in-addr.arpa'')) < reslen
                    \<and> reslen \<le> int (length buf) \<and> reslen < 2 ^ 31 \<longrightarrow>
                  ip2revdns inet_pton (Ptr buf) reslen (Ptr orig)
                    = Some (0, Ptr (dotted_quad (a 3) (a 2) (a 1) (a 0) @ ''.in-addr.arpa'' @ [NUL]
                        @ drop (length (dotted_quad (a 3) (a 2) (a 1) (a 0) @ ''.in-addr.arpa'') + 1)
                            buf)))
            \<and> (\<forall>pton'. pton' AF_INET orig = inet_pton AF_INET orig \<longrightarrow>
                  ip2revdns pton' (Ptr buf) reslen (Ptr orig)
                    = ip2revdns inet_pton (Ptr buf) reslen (Ptr orig)))
       \<and> (4 \<le> length orig \<and> orig ! 1 \<noteq> CHR ''.'' \<and> orig ! 2 \<noteq> CHR ''.'' \<and> orig ! 3 \<noteq> CHR ''.'' \<longrightarrow>
            (inet_pton AF_INET6 orig = None \<longrightarrow>
               ip2revdns inet_pton (Ptr buf) reslen (Ptr orig) = Some (- 1, Ptr (buf[0 := NUL])))
            \<and> (\<forall>a. inet_pton AF_INET6 orig = Some a
                    \<and> 72 < reslen \<and> reslen \<le> int (length buf) \<and> reslen < 2 ^ 31 \<longrightarrow>
                  ip2revdns inet_pton (Ptr buf) reslen (Ptr orig)
                    = Some (0, Ptr (nibble_labels a 16 @ ''ip6.arpa'' @ [NUL] @ drop 73 buf)))
            \<and> (\<forall>pton'. pton' AF_INET6 orig = inet_pton AF_INET6 orig \<longrightarrow>
                  ip2revdns pton' (Ptr buf) reslen (Ptr orig)
                    = ip2revdns inet_pton (Ptr buf) reslen (Ptr orig)))"
proof -
  have fz: "fail_zeroed buf = Some (- 1, Ptr (buf[0 := NUL]))"
    using assms by (simp add: fail_zeroed_def poke_def)
  have short: "length orig < 4 \<longrightarrow>
      ip2revdns inet_pton (Ptr buf) reslen (Ptr orig) = Some (- 1, Ptr (buf[0 := NUL]))"
    by (simp add: ip2revdns_def fz)
  have v4_fail: "4 \<le> length orig \<and> (orig ! 1 = CHR ''.'' \<or> orig ! 2 = CHR ''.'' \<or> orig ! 3 = CHR ''.'') \<longrightarrow>
      (inet_pton AF_INET orig = None \<longrightarrow>
         ip2revdns inet_pton (Ptr buf) reslen (Ptr orig) = Some (- 1, Ptr (buf[0 := NUL])))
      \<and> (\<forall>pton'. pton' AF_INET orig = inet_pton AF_INET orig \<longrightarrow>
            ip2revdns pton' (Ptr buf) reslen (Ptr orig)
              = ip2revdns inet_pton (Ptr buf) reslen (Ptr orig))"
    by (simp add: ip2revdns_def fz ipfamily_of_def)
  have v6_fail: "4 \<le> length orig \<and> orig ! 1 \<noteq> CHR ''.'' \<and> orig ! 2 \<noteq> CHR ''.'' \<and> orig ! 3 \<noteq> CHR ''.'' \<longrightarrow>
      (inet_pton AF_INET6 orig = None \<longrightarrow>
         ip2revdns inet_pton (Ptr buf) reslen (Ptr orig) = Some (- 1, Ptr (buf[0 := NUL])))
      \<and> (\<forall>pton'. pton' AF_INET6 orig = inet_pton AF_INET6 orig \<longrightarrow>
            ip2revdns pton' (Ptr buf) reslen (Ptr orig)
              = ip2revdns inet_pton (Ptr buf) reslen (Ptr orig))"
    by (simp add: ip2revdns_def fz ipfamily_of_def)
  from short v4_fail v6_fail show ?thesis
    by (intro conjI impI allI) (blast intro: ip2revdns_inet_run ip2revdns_inet6_run)+
qed

text \<open>
  Three rejected inputs (too short, not convertible as IPv4, not convertible as IPv6) and
  two accepted ones, one of each family.
\<close>

theorem ip2revdns_family_witness:
  "ip2revdns sample_inet_pton (Ptr (replicate 80 CHR ''#'')) 80 (Ptr ''1.2'')
     = Some (- 1, Ptr ((replicate 80 CHR ''#'')[0 := NUL]))
   \<and> ip2revdns sample_inet_pton (Ptr (replicate 80 CHR ''#'')) 80 (Ptr ''1.2.3.400'')
     = Some (- 1, Ptr ((replicate 80 CHR ''#'')[0 := NUL]))
   \<and> ip2revdns sample_inet_pton (Ptr (replicate 80 CHR ''#'')) 80 (Ptr ''12345::1'')
     = Some (- 1, Ptr ((replicate 80 CHR ''#'')[0 := NUL]))
   \<and> ip2revdns sample_inet_pton (Ptr (replicate 80 CHR ''#'')) 80 (Ptr ''203.0.113.1'')
     = Some (0, Ptr (''1.113.0.203.in-addr.arpa'' @ [NUL] @ replicate 55 CHR ''#''))
   \<and> ip2revdns sample_inet_pton (Ptr (replicate 80 CHR ''#'')) 80 (Ptr ''0::1'')
     = Some (0, Ptr (''1.0.0.0.0.0.0.0.0.0.0.0.0.0.0.0.0.0.0.0.0.0.0.0.0.0.0.0.0.0.0.0.ip6.arpa''
                      @ [NUL] @ replicate 7 CHR ''#''))"
  using ip2revdns_family [of "replicate 80 CHR ''#''" "''1.2''" sample_inet_pton 80]
    ip2revdns_family [of "replicate 80 CHR ''#''" "''1.2.3.400''" sample_inet_pton 80]
    ip2revdns_family [of "replicate 80 CHR ''#''" "''12345::1''" sample_inet_pton 80]
    ip2revdns_family [of "replicate 80 CHR ''#''" "''203.0.113.1''" sample_inet_pton 80]
    ip2revdns_family [of "replicate 80 CHR ''#''" "''0::1''" sample_inet_pton 80]
  by (simp add: sample_inet_pton_def dotted_quad_example_rev nibble_labels_loopback)

section \<open>The scan of the answer section\<close>

lemma take4_drop:
  "off + 4 < length xs \<Longrightarrow>
   take 4 (drop (off + 1) xs) = [xs ! (off + 1), xs ! (off + 2), xs ! (off + 3), xs ! (off + 4)]"
  by (rule nth_equalityI) (auto simp: nth_Cons' less_Suc_eq numeral_eq_Suc)

lemma not_rde_eq:
  assumes "off + 4 < length answer"
  shows "not_rde answer off = Some (take 4 (drop (off + 1) answer) \<noteq> ''RDE:'')"
proof -
  have p: "peek answer (off + 1) = Some (answer ! (off + 1))"
    "peek answer (off + 2) = Some (answer ! (off + 2))"
    "peek answer (off + 3) = Some (answer ! (off + 3))"
    "peek answer (off + 4) = Some (answer ! (off + 4))"
    using assms by (simp_all add: peek_def)
  show ?thesis
    unfolding not_rde_def p take4_drop [OF assms] by simp
qed

lemma rr_loop_skip:
  assumes "k \<le> msg_count"
    and "\<forall>j. i \<le> j \<and> j < k \<longrightarrow>
           (\<exists>rr. ns_parserr rs msg j = Some rr \<and> not_rde answer (ns_rr_rdata rs rr) = Some True)"
  shows "i \<le> k \<Longrightarrow> rr_loop rs msg answer result maxres msg_count i
           = rr_loop rs msg answer result maxres msg_count k"
  using assms
proof (induction "k - i" arbitrary: i)
  case 0
  then show ?case by simp
next
  case (Suc d)
  then have lt: "i < k" "i < msg_count" by simp_all
  with Suc.prems obtain rr where rr: "ns_parserr rs msg i = Some rr"
      "not_rde answer (ns_rr_rdata rs rr) = Some True"
    by blast
  have "rr_loop rs msg answer result maxres msg_count i
          = rr_loop rs msg answer result maxres msg_count (Suc i)"
    using lt rr by (subst rr_loop.simps) simp
  also have "\<dots> = rr_loop rs msg answer result maxres msg_count k"
    using Suc.hyps(2) Suc.prems lt by (intro Suc.hyps(1)) auto
  finally show ?case .
qed

lemma copy_controller_eq:
  assumes inb: "off + 4 < length answer"
    and n: "n = min (of_char (answer ! off)) maxres - 4" "0 \<le> n"
    and src: "off + 5 + nat n \<le> length answer"
    and dst: "nat n < length result"
  shows "copy_controller result maxres answer off
           = Some (0, take (nat n) (drop (off + 5) answer) @ [NUL] @ drop (nat n + 1) result)"
proof -
  have l: "peek answer off = Some (answer ! off)" using inb by (simp add: peek_def)
  have m: "(if of_char (answer ! off) < maxres then of_char (answer ! off) else maxres) - 4 = n"
    using n by (simp add: min_def)
  have "(of_char (answer ! off) :: int) < 256"
    using of_char_mod_256 [of "answer ! off", where 'a = int]
    by (metis pos_mod_bound zero_less_numeral)
  then have "n < 2 ^ 64" using n by simp
  then have sz: "size_t n = nat n" using n by (simp add: size_t_def)
  let ?bs = "take (nat n) (drop (off + 5) answer)"
  have lb: "length ?bs = nat n" using src by simp
  have cp: "memcpy result answer (off + 5) (nat n) = Some (?bs @ drop (nat n) result)"
    using src dst lb by (simp add: memcpy_def store_def)
  have "drop (nat n) result = result ! nat n # drop (nat n + 1) result"
    using dst by (simp add: Cons_nth_drop_Suc)
  then have "(drop (nat n) result)[0 := NUL] = [NUL] @ drop (nat n + 1) result"
    by simp
  then have "(?bs @ drop (nat n) result)[nat n := NUL] = ?bs @ [NUL] @ drop (nat n + 1) result"
    using lb by (simp add: list_update_append)
  then have pk: "poke (?bs @ drop (nat n) result) n NUL = Some (?bs @ [NUL] @ drop (nat n + 1) result)"
    using n dst lb by (simp add: poke_def)
  show ?thesis
    unfolding copy_controller_def l option.case Let_def m sz cp pk by simp
qed

lemma rr_loop_skip_tags:
  assumes "k \<le> msg_count"
    and "\<forall>j<k. \<exists>rr. ns_parserr rs msg j = Some rr \<and> ns_rr_rdata rs rr + 4 < length answer
            \<and> take 4 (drop (ns_rr_rdata rs rr + 1) answer) \<noteq> ''RDE:''"
  shows "rr_loop rs msg answer result maxres msg_count 0
           = rr_loop rs msg answer result maxres msg_count k"
proof (rule rr_loop_skip [OF assms(1)])
  show "\<forall>j. 0 \<le> j \<and> j < k \<longrightarrow>
          (\<exists>rr. ns_parserr rs msg j = Some rr \<and> not_rde answer (ns_rr_rdata rs rr) = Some True)"
  proof (intro allI impI)
    fix j assume "0 \<le> j \<and> j < k"
    then obtain rr where rr: "ns_parserr rs msg j = Some rr" "ns_rr_rdata rs rr + 4 < length answer"
        "take 4 (drop (ns_rr_rdata rs rr + 1) answer) \<noteq> ''RDE:''"
      using assms(2) by blast
    from not_rde_eq [OF rr(2)] rr(3) have "not_rde answer (ns_rr_rdata rs rr) = Some True"
      by simp
    with rr(1) show "\<exists>rr. ns_parserr rs msg j = Some rr \<and> not_rde answer (ns_rr_rdata rs rr) = Some True"
      by blast
  qed
qed simp

text \<open>
  The scan on well-formed records. Let the query succeed and the message parse, and let the
  record at index \<open>k\<close> of the answer section be the first whose data bytes at offsets 1 to 4
  are \<open>R\<close>, \<open>D\<close>, \<open>E\<close>, \<open>:\<close>: every record before it parses and has other bytes there (the
  five bytes read from each record lying inside \<^verbatim>\<open>answer\<close>). Let \<open>n\<close> be the minimum of the length
  byte at offset 0 and of \<^verbatim>\<open>maxres\<close>, minus 4, not negative, with the \<open>n\<close> bytes from offset 5
  inside \<^verbatim>\<open>answer\<close> and \<^verbatim>\<open>maxres\<close> not above the size of \<^verbatim>\<open>result\<close>. Then \<^verbatim>\<open>rpp_getcontroller\<close>
  returns 0, and \<^verbatim>\<open>result\<close> holds these \<open>n\<close> bytes followed by a terminator, the rest
  untouched. Nothing is assumed of the records after index \<open>k\<close>: they are not examined.
\<close>

lemma rpp_getcontroller_first_match:
  assumes q: "res_query rs revname = (len, answer)" "0 \<le> len"
    and parse: "ns_initparse rs answer len = Some msg"
    and k: "k < ns_msg_count rs msg"
    and before: "\<forall>j<k. \<exists>rr. ns_parserr rs msg j = Some rr \<and> ns_rr_rdata rs rr + 4 < length answer
                   \<and> take 4 (drop (ns_rr_rdata rs rr + 1) answer) \<noteq> ''RDE:''"
    and rr: "ns_parserr rs msg k = Some rr" "ns_rr_rdata rs rr = off"
    and inb: "off + 4 < length answer"
    and tag: "take 4 (drop (off + 1) answer) = ''RDE:''"
    and n: "n = min (of_char (answer ! off)) maxres - 4" "0 \<le> n"
    and src: "off + 5 + nat n \<le> length answer"
    and cap: "maxres \<le> int (length result)"
  shows "rpp_getcontroller rs result maxres revname
           = Some (0, take (nat n) (drop (off + 5) answer) @ [NUL] @ drop (nat n + 1) result)"
proof -
  let ?c = "ns_msg_count rs msg"
  have "min (of_char (answer ! off)) maxres \<le> maxres" by (rule min.cobounded2)
  with n(1) have "n \<le> maxres - 4" by linarith
  then have dst: "nat n < length result" using n(2) cap by arith
  have "rr_loop rs msg answer result maxres ?c 0 = rr_loop rs msg answer result maxres ?c k"
    using k before by (intro rr_loop_skip_tags) simp_all
  also have "\<dots> = copy_controller result maxres answer off"
    using k rr not_rde_eq [OF inb] tag by (subst rr_loop.simps) simp
  also have "\<dots> = Some (0, take (nat n) (drop (off + 5) answer) @ [NUL] @ drop (nat n + 1) result)"
    using inb n src dst by (rule copy_controller_eq)
  finally show ?thesis
    using q parse k by (simp add: rpp_getcontroller_def)
qed

text \<open>
  The first record does not match and is skipped, the second gives the controller
  \<open>192.0.2.55\<close>, and the third, which would not parse, is never read.
\<close>

lemma rpp_getcontroller_first_match_example:
  "rpp_getcontroller (scripted_resolv 22 sample_answer True [Some 0, Some 7, None])
       (replicate 16 CHR ''#'') 16 ''0.113.0.203.in-addr.arpa''
     = Some (0, ''192.0.2.55'' @ [NUL] @ replicate 5 CHR ''#'')"
  using rpp_getcontroller_first_match
    [of "scripted_resolv 22 sample_answer True [Some 0, Some 7, None]"
        "''0.113.0.203.in-addr.arpa''" 22 sample_answer "[Some 0, Some 7, None]" 1 7 7 10 16
        "replicate 16 CHR ''#''"]
  by (simp add: scripted_resolv_def sample_answer_def)

text \<open>
  Claim C3 says that the first record with \<open>R\<close>, \<open>D\<close>, \<open>E\<close>, \<open>:\<close> at offsets 1 to 4 of its data
  has the minimum of its length byte and of the capacity, minus 4, bytes copied from offset
  5, and that the call then returns success. The code never tests that the length byte is at
  least 4. On a record made of the character-string \<open>RDE\<close> followed by a character-string of
  58 characters, the length byte is 3 and the byte at offset 4 is the second length byte,
  \<open>0x3A\<close>, a colon: the record matches, the length computed is -1, and \<^verbatim>\<open>memcpy\<close> is called
  with \<^verbatim>\<open>(size_t)-1\<close>, far outside both arrays, so that the call has no defined result.
\<close>

theorem rpp_getcontroller_short_match:
  "not_rde short_tag_answer 0 = Some False
   \<and> min (of_char (short_tag_answer ! 0)) 128 - 4 = (- 1 :: int)
   \<and> memcpy (replicate 128 NUL) short_tag_answer 5 (size_t (- 1)) = None
   \<and> rpp_getcontroller (scripted_resolv 63 short_tag_answer True [Some 0]) (replicate 128 NUL) 128
         ''0.113.0.203.in-addr.arpa'' = None"
  by (simp add: rpp_getcontroller_def scripted_resolv_def short_tag_answer_def rr_loop.simps
        not_rde_def peek_def copy_controller_def memcpy_def size_t_def Let_def)

text \<open>
  Claim C4. \<^verbatim>\<open>rpp_getcontroller\<close> returns 1 (not found), leaving \<^verbatim>\<open>result\<close> as it was, when
  \<^verbatim>\<open>res_query\<close> returns a negative value, when the answer section has no record, and when
  every record parses and none has \<open>RDE:\<close> at offsets 1 to 4. It returns the negative value
  -3 when \<^verbatim>\<open>ns_initparse\<close> fails, and the negative value -4 when the scan reaches a record
  on which \<^verbatim>\<open>ns_parserr\<close> fails (the records before it parse and do not match): the scan
  stops there and does not go on to the next record.
\<close>

theorem rpp_getcontroller_status:
  "(fst (res_query rs revname) < 0 \<longrightarrow>
      rpp_getcontroller rs result maxres revname = Some (1, result))
   \<and> (res_query rs revname = (len, answer) \<and> 0 \<le> len \<and> ns_initparse rs answer len = None \<longrightarrow>
      rpp_getcontroller rs result maxres revname = Some (- 3, result))
   \<and> (res_query rs revname = (len, answer) \<and> 0 \<le> len \<and> ns_initparse rs answer len = Some msg
        \<and> ns_msg_count rs msg = 0 \<longrightarrow>
      rpp_getcontroller rs result maxres revname = Some (1, result))
   \<and> (res_query rs revname = (len, answer) \<and> 0 \<le> len \<and> ns_initparse rs answer len = Some msg
        \<and> (\<forall>j < ns_msg_count rs msg. \<exists>rr. ns_parserr rs msg j = Some rr
               \<and> ns_rr_rdata rs rr + 4 < length answer
               \<and> take 4 (drop (ns_rr_rdata rs rr + 1) answer) \<noteq> ''RDE:'') \<longrightarrow>
      rpp_getcontroller rs result maxres revname = Some (1, result))
   \<and> (res_query rs revname = (len, answer) \<and> 0 \<le> len \<and> ns_initparse rs answer len = Some msg
        \<and> k < ns_msg_count rs msg
        \<and> (\<forall>j<k. \<exists>rr. ns_parserr rs msg j = Some rr
               \<and> ns_rr_rdata rs rr + 4 < length answer
               \<and> take 4 (drop (ns_rr_rdata rs rr + 1) answer) \<noteq> ''RDE:'')
        \<and> ns_parserr rs msg k = None \<longrightarrow>
      rpp_getcontroller rs result maxres revname = Some (- 4, result))"
proof (intro conjI impI)
  assume "fst (res_query rs revname) < 0"
  then show "rpp_getcontroller rs result maxres revname = Some (1, result)"
    by (cases "res_query rs revname") (simp add: rpp_getcontroller_def)
next
  assume "res_query rs revname = (len, answer) \<and> 0 \<le> len \<and> ns_initparse rs answer len = None"
  then show "rpp_getcontroller rs result maxres revname = Some (- 3, result)"
    by (simp add: rpp_getcontroller_def)
next
  assume "res_query rs revname = (len, answer) \<and> 0 \<le> len \<and> ns_initparse rs answer len = Some msg
    \<and> ns_msg_count rs msg = 0"
  then show "rpp_getcontroller rs result maxres revname = Some (1, result)"
    by (simp add: rpp_getcontroller_def)
next
  let ?c = "ns_msg_count rs msg"
  assume a: "res_query rs revname = (len, answer) \<and> 0 \<le> len \<and> ns_initparse rs answer len = Some msg
        \<and> (\<forall>j < ?c. \<exists>rr. ns_parserr rs msg j = Some rr
               \<and> ns_rr_rdata rs rr + 4 < length answer
               \<and> take 4 (drop (ns_rr_rdata rs rr + 1) answer) \<noteq> ''RDE:'')"
  then have "rr_loop rs msg answer result maxres ?c 0 = rr_loop rs msg answer result maxres ?c ?c"
    by (intro rr_loop_skip_tags) simp_all
  also have "\<dots> = Some (1, result)"
    by (subst rr_loop.simps) simp
  finally show "rpp_getcontroller rs result maxres revname = Some (1, result)"
    using a by (simp add: rpp_getcontroller_def)
next
  let ?c = "ns_msg_count rs msg"
  assume a: "res_query rs revname = (len, answer) \<and> 0 \<le> len \<and> ns_initparse rs answer len = Some msg
        \<and> k < ?c
        \<and> (\<forall>j<k. \<exists>rr. ns_parserr rs msg j = Some rr
               \<and> ns_rr_rdata rs rr + 4 < length answer
               \<and> take 4 (drop (ns_rr_rdata rs rr + 1) answer) \<noteq> ''RDE:'')
        \<and> ns_parserr rs msg k = None"
  then have "rr_loop rs msg answer result maxres ?c 0 = rr_loop rs msg answer result maxres ?c k"
    by (intro rr_loop_skip_tags) simp_all
  also have "\<dots> = Some (- 4, result)"
    using a by (subst rr_loop.simps) simp
  finally show "rpp_getcontroller rs result maxres revname = Some (- 4, result)"
    using a by (simp add: rpp_getcontroller_def)
qed

theorem rpp_getcontroller_status_witness:
  "rpp_getcontroller (scripted_resolv (- 1) [] True []) ''####'' 4 ''x'' = Some (1, ''####'')
   \<and> rpp_getcontroller (scripted_resolv 22 sample_answer False []) ''####'' 4 ''x'' = Some (- 3, ''####'')
   \<and> rpp_getcontroller (scripted_resolv 22 sample_answer True []) ''####'' 4 ''x'' = Some (1, ''####'')
   \<and> rpp_getcontroller (scripted_resolv 22 sample_answer True [Some 0]) ''####'' 4 ''x'' = Some (1, ''####'')
   \<and> rpp_getcontroller (scripted_resolv 22 sample_answer True [Some 0, None, Some 7]) ''####'' 4 ''x''
       = Some (- 4, ''####'')"
  using rpp_getcontroller_status [of "scripted_resolv (- 1) [] True []" "''x''" "''####''" 4]
    rpp_getcontroller_status [of "scripted_resolv 22 sample_answer False []" "''x''" "''####''" 4
        22 sample_answer]
    rpp_getcontroller_status [of "scripted_resolv 22 sample_answer True []" "''x''" "''####''" 4
        22 sample_answer "[]"]
    rpp_getcontroller_status [of "scripted_resolv 22 sample_answer True [Some 0]" "''x''" "''####''" 4
        22 sample_answer "[Some 0]"]
    rpp_getcontroller_status [of "scripted_resolv 22 sample_answer True [Some 0, None, Some 7]" "''x''"
        "''####''" 4 22 sample_answer "[Some 0, None, Some 7]" 1]
  by (simp add: scripted_resolv_def sample_answer_def)

section \<open>The result array when no controller is found\<close>

lemma copy_controller_status:
  "copy_controller result maxres answer off = Some (st, r) \<Longrightarrow> st = 0"
  by (auto simp: copy_controller_def Let_def split: option.splits)

lemma rr_loop_frame:
  "rr_loop rs msg answer result maxres msg_count i = Some (st, r) \<Longrightarrow> st \<noteq> 0 \<Longrightarrow> r = result"
proof (induction rs msg answer result maxres msg_count i rule: rr_loop.induct)
  case (1 rs msg answer result maxres msg_count i)
  from "1.prems" show ?case
    by (subst (asm) rr_loop.simps)
       (auto split: if_splits option.splits dest: copy_controller_status "1.IH")
qed

lemma rpp_getcontroller_frame:
  "rpp_getcontroller rs result maxres revname = Some (st, r) \<Longrightarrow> st \<noteq> 0 \<Longrightarrow> r = result"
  by (auto simp: rpp_getcontroller_def split: prod.splits if_splits option.splits dest: rr_loop_frame)

section \<open>The bytes on the wire\<close>

text \<open>
  Claim C5. For arguments whose lengths fit the cast \<^verbatim>\<open>(unsigned)\<close> (below \<open>2^32\<close>, as every
  command-line argument is): when \<^verbatim>\<open>advertise_inpref_to_remote_dst\<close> returns 0, the bytes sent,
  taken together, are exactly \<open>SETINPREF\<close>, a space, the TTL in decimal, a tab, the local
  prefixes, a tab, the preference list, a carriage return and a line feed, and they went to
  the socket connected to the controller's address on port 4343. When \<^verbatim>\<open>connect\<close> fails on a
  socket that was created, the function returns -2, the value of the connect stage alone,
  and no \<^verbatim>\<open>send\<close> is made.
\<close>

theorem advertise_wire_format:
  assumes "length locpreflist < 2 ^ 32" "length preflist < 2 ^ 32"
  shows "(advertise_inpref_to_remote_dst nt locpreflist ttl servstringaddr preflist = Some (0, evs) \<longrightarrow>
            sent_bytes evs = ''SETINPREF '' @ fmt_d ttl @ TAB @ locpreflist @ TAB @ preflist @ CRLF
            \<and> take 2 evs = [Socket (socket_ret nt),
                 Connect (socket_ret nt) (inet_addr nt servstringaddr) 4343
                   (connect_ret nt (inet_addr nt servstringaddr) 4343)])
       \<and> (0 \<le> socket_ret nt \<and> connect_ret nt (inet_addr nt servstringaddr) 4343 < 0 \<longrightarrow>
            advertise_inpref_to_remote_dst nt locpreflist ttl servstringaddr preflist
              = Some (- 2, [Socket (socket_ret nt),
                   Connect (socket_ret nt) (inet_addr nt servstringaddr) 4343
                     (connect_ret nt (inet_addr nt servstringaddr) 4343),
                   Stdout (''ERROR: connection to the remote controller failed (''
                            @ strerror_errno nt @ '')\<newline>'')])
            \<and> sent_bytes [Socket (socket_ret nt),
                   Connect (socket_ret nt) (inet_addr nt servstringaddr) 4343
                     (connect_ret nt (inet_addr nt servstringaddr) 4343),
                   Stdout (''ERROR: connection to the remote controller failed (''
                            @ strerror_errno nt @ '')\<newline>'')] = [])"
proof (intro conjI impI)
  assume ok: "advertise_inpref_to_remote_dst nt locpreflist ttl servstringaddr preflist = Some (0, evs)"
  have u: "to_unsigned (length locpreflist) = int (length locpreflist)"
    "to_unsigned (length preflist) = int (length preflist)"
    using assms by (simp_all add: to_unsigned_def)
  from ok show "sent_bytes evs = ''SETINPREF '' @ fmt_d ttl @ TAB @ locpreflist @ TAB @ preflist @ CRLF"
    by (auto simp: advertise_inpref_to_remote_dst_def Let_def u TAB_def CRLF_def split: if_splits)
  from ok show "take 2 evs = [Socket (socket_ret nt),
                 Connect (socket_ret nt) (inet_addr nt servstringaddr) 4343
                   (connect_ret nt (inet_addr nt servstringaddr) 4343)]"
    by (auto simp: advertise_inpref_to_remote_dst_def Let_def split: if_splits)
next
  assume "0 \<le> socket_ret nt \<and> connect_ret nt (inet_addr nt servstringaddr) 4343 < 0"
  then show "advertise_inpref_to_remote_dst nt locpreflist ttl servstringaddr preflist
              = Some (- 2, [Socket (socket_ret nt),
                   Connect (socket_ret nt) (inet_addr nt servstringaddr) 4343
                     (connect_ret nt (inet_addr nt servstringaddr) 4343),
                   Stdout (''ERROR: connection to the remote controller failed (''
                            @ strerror_errno nt @ '')\<newline>'')])"
    by (simp add: advertise_inpref_to_remote_dst_def Let_def)
next
  show "sent_bytes [Socket (socket_ret nt),
                   Connect (socket_ret nt) (inet_addr nt servstringaddr) 4343
                     (connect_ret nt (inet_addr nt servstringaddr) 4343),
                   Stdout (''ERROR: connection to the remote controller failed (''
                            @ strerror_errno nt @ '')\<newline>'')] = []"
    by simp
qed

lemma fmt_d_3600: "fmt_d 3600 = ''3600''"
  by (simp add: fmt_d_def fmt_dec.simps digit_def)

theorem advertise_wire_format_witness:
  "advertise_inpref_to_remote_dst (scripted_net 3 0 5) ''192.0.2.0/24'' 3600 ''192.0.2.55'' ''64552:0''
     = Some (0, [Socket 3, Connect 3 0xC0000237 4343 0,
          Send 3 (''SETINPREF 3600'' @ TAB) True 15, Send 3 ''192.0.2.0/24'' True 12,
          Send 3 TAB True 1, Send 3 ''64552:0'' True 7, Send 3 CRLF False 2, Close 3])
   \<and> sent_bytes [Socket 3, Connect 3 0xC0000237 4343 0,
          Send 3 (''SETINPREF 3600'' @ TAB) True 15, Send 3 ''192.0.2.0/24'' True 12,
          Send 3 TAB True 1, Send 3 ''64552:0'' True 7, Send 3 CRLF False 2, Close 3]
       = ''SETINPREF 3600'' @ TAB @ ''192.0.2.0/24'' @ TAB @ ''64552:0'' @ CRLF
   \<and> advertise_inpref_to_remote_dst (scripted_net 3 (- 1) 5) ''192.0.2.0/24'' 3600 ''192.0.2.55'' ''64552:0''
       = Some (- 2, [Socket 3, Connect 3 0xC0000237 4343 (- 1),
            Stdout ''ERROR: connection to the remote controller failed (Connection refused)\<newline>''])"
  using advertise_wire_format [of "''192.0.2.0/24''" "''64552:0''" "scripted_net 3 0 5" 3600 "''192.0.2.55''"
      "[Socket 3, Connect 3 0xC0000237 4343 0,
       Send 3 (''SETINPREF 3600'' @ TAB) True 15, Send 3 ''192.0.2.0/24'' True 12,
       Send 3 TAB True 1, Send 3 ''64552:0'' True 7, Send 3 CRLF False 2, Close 3]"]
    advertise_wire_format [of "''192.0.2.0/24''" "''64552:0''" "scripted_net 3 (- 1) 5" 3600 "''192.0.2.55''"]
  by (simp add: scripted_net_def advertise_inpref_to_remote_dst_def Let_def fmt_d_3600 TAB_def CRLF_def
        to_unsigned_def)

section \<open>The socket on the exit paths\<close>

text \<open>
  Claim C8 asks that the socket, once created, is closed on every exit path. When \<^verbatim>\<open>connect\<close>
  fails the function returns -2 without calling \<^verbatim>\<open>close\<close>: with the descriptor 3 and a refused
  connection, the socket 3 is still open after the events of the call.
\<close>

theorem advertise_connect_failure_leaks:
  "advertise_inpref_to_remote_dst (scripted_net 3 (- 1) 5) ''192.0.2.0/24'' 3600 ''192.0.2.55'' ''64552:0''
     = Some (- 2, [Socket 3, Connect 3 0xC0000237 4343 (- 1),
          Stdout ''ERROR: connection to the remote controller failed (Connection refused)\<newline>''])
   \<and> open_after [] [Socket 3, Connect 3 0xC0000237 4343 (- 1),
          Stdout ''ERROR: connection to the remote controller failed (Connection refused)\<newline>''] = [3]"
  by (simp add: scripted_net_def advertise_inpref_to_remote_dst_def Let_def)

text \<open>
  Every other exit path leaves no socket open; the failed \<^verbatim>\<open>connect\<close> always leaves one.
\<close>

lemma advertise_closes_otherwise:
  "advertise_inpref_to_remote_dst nt locpreflist ttl servstringaddr preflist = Some (r, evs) \<Longrightarrow>
   r \<noteq> - 2 \<Longrightarrow> open_after [] evs = []"
  by (auto simp: advertise_inpref_to_remote_dst_def Let_def send_failed_def split: if_splits)

lemma connect_failure_leaves_socket:
  "0 \<le> socket_ret nt \<Longrightarrow> connect_ret nt (inet_addr nt servstringaddr) 4343 < 0 \<Longrightarrow>
   \<exists>evs. advertise_inpref_to_remote_dst nt locpreflist ttl servstringaddr preflist = Some (- 2, evs)
     \<and> open_after [] evs = [socket_ret nt]"
  by (simp add: advertise_inpref_to_remote_dst_def Let_def)

lemma advertise_failure_diagnostic:
  "advertise_inpref_to_remote_dst nt locpreflist ttl servstringaddr preflist = Some (r, evs) \<Longrightarrow>
   r \<noteq> 0 \<Longrightarrow> \<exists>text. Stdout (''ERROR: '' @ text) \<in> set evs"
  by (auto simp: advertise_inpref_to_remote_dst_def Let_def send_failed_def split: if_splits)

section \<open>The whole run\<close>

lemma report_failure:
  "st \<noteq> 0 \<Longrightarrow> report st prefixorg r
     = Some (Stdout (if 0 < st then ''No RDE entry found for '' @ prefixorg @ ''\<newline>''
                     else ''ERROR: DNS failure ('' @ fmt_d st @ '')\<newline>''))"
  by (simp add: report_def)

lemma main_resolve:
  "main inet_pton rs nt revdns rdeaddr [prog, ''resolve'', prefixorg] =
     (case ip2revdns inet_pton (Ptr revdns) 128 (Ptr (cut_prefix prefixorg 0)) of
        None \<Rightarrow> None
      | Some (st, NULL) \<Rightarrow> None
      | Some (st, Ptr revdns') \<Rightarrow>
          if st \<noteq> 0 then
            Some (1, [Stdout (''ERROR: failed to compute a reverse DNS for '' @ SQ @ prefixorg @ SQ
                               @ ''\<newline>'')])
          else
            (case c_str revdns' of
               None \<Rightarrow> None
             | Some revname \<Rightarrow>
                 (case rpp_getcontroller rs rdeaddr 128 revname of
                    None \<Rightarrow> None
                  | Some (i, rdeaddr') \<Rightarrow>
                      (case report i prefixorg rdeaddr' of
                         None \<Rightarrow> None
                       | Some line \<Rightarrow> Some (0, [line])))))"
  by (simp add: main_def Let_def split: option.splits prod.splits ptr.splits)

lemma main_advertise:
  "main inet_pton rs nt revdns rdeaddr [prog, ''advertise'', prefixorg, loc, pref] =
     (case ip2revdns inet_pton (Ptr revdns) 128 (Ptr (cut_prefix prefixorg 0)) of
        None \<Rightarrow> None
      | Some (st, NULL) \<Rightarrow> None
      | Some (st, Ptr revdns') \<Rightarrow>
          if st \<noteq> 0 then
            Some (1, [Stdout (''ERROR: failed to compute a reverse DNS for '' @ SQ @ prefixorg @ SQ
                               @ ''\<newline>'')])
          else
            (case c_str revdns' of
               None \<Rightarrow> None
             | Some revname \<Rightarrow>
                 (case rpp_getcontroller rs rdeaddr 128 revname of
                    None \<Rightarrow> None
                  | Some (i, rdeaddr') \<Rightarrow>
                      (case report i prefixorg rdeaddr' of
                         None \<Rightarrow> None
                       | Some line \<Rightarrow>
                           (case c_str rdeaddr' of
                              None \<Rightarrow> None
                            | Some servstringaddr \<Rightarrow>
                                (case advertise_inpref_to_remote_dst nt loc 3600 servstringaddr pref of
                                   None \<Rightarrow> None
                                 | Some (r, evs) \<Rightarrow>
                                     Some (0, [line, Stdout ''Sending preferences...\<newline>''] @ evs
                                                @ (if r = 0 then [Stdout ''Done.\<newline>''] else []))))))))"
  by (simp add: main_def Let_def split: option.splits prod.splits ptr.splits)

text \<open>
  Claim C10. When \<^verbatim>\<open>rpp_getcontroller\<close> returns a status other than 0 (not found, or an
  error), the result array is what it was before the call. So in \<^verbatim>\<open>main\<close>, for the action
  \<open>advertise\<close>, after a resolution that returned such a status, the advertiser is called with
  the text that the array \<^verbatim>\<open>rdeaddr\<close> held before the resolution.
\<close>

theorem rpp_getcontroller_failure_frame:
  "(rpp_getcontroller rs result maxres revname = Some (st, result') \<and> st \<noteq> 0 \<longrightarrow> result' = result)
   \<and> (ip2revdns inet_pton (Ptr revdns) 128 (Ptr (cut_prefix prefixorg 0)) = Some (0, Ptr b)
        \<and> c_str b = Some revname
        \<and> rpp_getcontroller rs rdeaddr 128 revname = Some (st, rdeaddr') \<and> st \<noteq> 0
        \<and> c_str rdeaddr = Some a \<longrightarrow>
      main inet_pton rs nt revdns rdeaddr [prog, ''advertise'', prefixorg, loc, pref] =
        (case advertise_inpref_to_remote_dst nt loc 3600 a pref of
           None \<Rightarrow> None
         | Some (r, evs) \<Rightarrow>
             Some (0, [Stdout (if 0 < st then ''No RDE entry found for '' @ prefixorg @ ''\<newline>''
                               else ''ERROR: DNS failure ('' @ fmt_d st @ '')\<newline>''),
                       Stdout ''Sending preferences...\<newline>''] @ evs
                        @ (if r = 0 then [Stdout ''Done.\<newline>''] else []))))"
proof (intro conjI impI)
  assume "rpp_getcontroller rs result maxres revname = Some (st, result') \<and> st \<noteq> 0"
  then show "result' = result" by (blast dest: rpp_getcontroller_frame)
next
  assume a: "ip2revdns inet_pton (Ptr revdns) 128 (Ptr (cut_prefix prefixorg 0)) = Some (0, Ptr b)
        \<and> c_str b = Some revname
        \<and> rpp_getcontroller rs rdeaddr 128 revname = Some (st, rdeaddr') \<and> st \<noteq> 0
        \<and> c_str rdeaddr = Some a"
  then have same: "rdeaddr' = rdeaddr" by (blast dest: rpp_getcontroller_frame)
  from a show "main inet_pton rs nt revdns rdeaddr [prog, ''advertise'', prefixorg, loc, pref] =
        (case advertise_inpref_to_remote_dst nt loc 3600 a pref of
           None \<Rightarrow> None
         | Some (r, evs) \<Rightarrow>
             Some (0, [Stdout (if 0 < st then ''No RDE entry found for '' @ prefixorg @ ''\<newline>''
                               else ''ERROR: DNS failure ('' @ fmt_d st @ '')\<newline>''),
                       Stdout ''Sending preferences...\<newline>''] @ evs
                        @ (if r = 0 then [Stdout ''Done.\<newline>''] else [])))"
    unfolding main_advertise using same
    by (simp add: report_failure split: option.splits)
qed

text \<open>
  Claim C9, amended. When \<^verbatim>\<open>ip2revdns\<close> fails, \<^verbatim>\<open>main\<close> prints a diagnostic and returns 1, for
  both actions. When the resolution returns a negative status, \<^verbatim>\<open>main\<close> prints the
  diagnostic \<open>ERROR: DNS failure\<close> with the status, and for the action \<open>resolve\<close> returns 0.
  When the advertisement fails (socket, connect or send), its events contain a diagnostic
  that starts with \<open>ERROR:\<close>, and \<^verbatim>\<open>main\<close> returns 0.
\<close>

theorem main_failure_reporting:
  "(ip2revdns inet_pton (Ptr revdns) 128 (Ptr (cut_prefix prefixorg 0)) = Some (st, Ptr b) \<and> st \<noteq> 0 \<longrightarrow>
      main inet_pton rs nt revdns rdeaddr [prog, ''resolve'', prefixorg]
        = Some (1, [Stdout (''ERROR: failed to compute a reverse DNS for '' @ SQ @ prefixorg @ SQ
                             @ ''\<newline>'')])
      \<and> main inet_pton rs nt revdns rdeaddr [prog, ''advertise'', prefixorg, loc, pref]
        = Some (1, [Stdout (''ERROR: failed to compute a reverse DNS for '' @ SQ @ prefixorg @ SQ
                             @ ''\<newline>'')]))
   \<and> (ip2revdns inet_pton (Ptr revdns) 128 (Ptr (cut_prefix prefixorg 0)) = Some (0, Ptr b)
        \<and> c_str b = Some revname
        \<and> rpp_getcontroller rs rdeaddr 128 revname = Some (i, r) \<and> i < 0 \<longrightarrow>
      main inet_pton rs nt revdns rdeaddr [prog, ''resolve'', prefixorg]
        = Some (0, [Stdout (''ERROR: DNS failure ('' @ fmt_d i @ '')\<newline>'')]))
   \<and> (ip2revdns inet_pton (Ptr revdns) 128 (Ptr (cut_prefix prefixorg 0)) = Some (0, Ptr b)
        \<and> c_str b = Some revname
        \<and> rpp_getcontroller rs rdeaddr 128 revname = Some (i, r)
        \<and> report i prefixorg r = Some line
        \<and> c_str r = Some a
        \<and> advertise_inpref_to_remote_dst nt loc 3600 a pref = Some (res, evs) \<and> res \<noteq> 0 \<longrightarrow>
      main inet_pton rs nt revdns rdeaddr [prog, ''advertise'', prefixorg, loc, pref]
        = Some (0, [line, Stdout ''Sending preferences...\<newline>''] @ evs)
      \<and> (\<exists>text. Stdout (''ERROR: '' @ text) \<in> set evs))"
proof (intro conjI impI)
  assume "ip2revdns inet_pton (Ptr revdns) 128 (Ptr (cut_prefix prefixorg 0)) = Some (st, Ptr b) \<and> st \<noteq> 0"
  then show "main inet_pton rs nt revdns rdeaddr [prog, ''resolve'', prefixorg]
        = Some (1, [Stdout (''ERROR: failed to compute a reverse DNS for '' @ SQ @ prefixorg @ SQ
                             @ ''\<newline>'')])"
    and "main inet_pton rs nt revdns rdeaddr [prog, ''advertise'', prefixorg, loc, pref]
        = Some (1, [Stdout (''ERROR: failed to compute a reverse DNS for '' @ SQ @ prefixorg @ SQ
                             @ ''\<newline>'')])"
    by (simp_all add: main_resolve main_advertise)
next
  assume "ip2revdns inet_pton (Ptr revdns) 128 (Ptr (cut_prefix prefixorg 0)) = Some (0, Ptr b)
        \<and> c_str b = Some revname
        \<and> rpp_getcontroller rs rdeaddr 128 revname = Some (i, r) \<and> i < 0"
  then show "main inet_pton rs nt revdns rdeaddr [prog, ''resolve'', prefixorg]
        = Some (0, [Stdout (''ERROR: DNS failure ('' @ fmt_d i @ '')\<newline>'')])"
    by (simp add: main_resolve report_def)
next
  assume a: "ip2revdns inet_pton (Ptr revdns) 128 (Ptr (cut_prefix prefixorg 0)) = Some (0, Ptr b)
        \<and> c_str b = Some revname
        \<and> rpp_getcontroller rs rdeaddr 128 revname = Some (i, r)
        \<and> report i prefixorg r = Some line
        \<and> c_str r = Some a
        \<and> advertise_inpref_to_remote_dst nt loc 3600 a pref = Some (res, evs) \<and> res \<noteq> 0"
  then show "main inet_pton rs nt revdns rdeaddr [prog, ''advertise'', prefixorg, loc, pref]
        = Some (0, [line, Stdout ''Sending preferences...\<newline>''] @ evs)"
    by (simp add: main_advertise)
  from a show "\<exists>text. Stdout (''ERROR: '' @ text) \<in> set evs"
    by (blast dest: advertise_failure_diagnostic)
qed

text \<open>Concrete runs on the prefix \<open>203.0.113.0/24\<close>.\<close>

lemma cut_prefix_example: "cut_prefix ''203.0.113.0/24'' 0 = ''203.0.113.0''"
  by simp

lemma ip2revdns_example:
  "ip2revdns sample_inet_pton (Ptr (replicate 128 NUL)) 128 (Ptr ''203.0.113.0'')
     = Some (0, Ptr (''0.113.0.203.in-addr.arpa'' @ replicate 104 NUL))"
  by (simp add: sample_inet_pton_def ip2revdns_def ipfamily_of_def fmt_inaddr_def fmt_d_def
        fmt_dec.simps digit_def snprintf_def size_t_def store_def replicate_Suc [symmetric]
        del: replicate_Suc)

lemma c_str_example:
  "c_str (''0.113.0.203.in-addr.arpa'' @ replicate 104 NUL) = Some ''0.113.0.203.in-addr.arpa''"
  by (simp add: c_str_def NUL_def)

lemma replicate_update_same: "(replicate n x)[i := x] = replicate n x"
  by (induction n arbitrary: i) (simp_all split: nat.splits)

lemma rpp_example_error:
  "rpp_getcontroller (scripted_resolv 22 sample_answer False []) buf 128 ''0.113.0.203.in-addr.arpa''
     = Some (- 3, buf)"
  by (simp add: rpp_getcontroller_def scripted_resolv_def)

lemma rpp_example_found:
  "rpp_getcontroller (scripted_resolv 22 sample_answer True [Some 0, Some 7]) (replicate 128 NUL) 128
       ''0.113.0.203.in-addr.arpa''
     = Some (0, ''192.0.2.55'' @ replicate 118 NUL)"
  by (simp add: rpp_getcontroller_def scripted_resolv_def sample_answer_def rr_loop.simps not_rde_def
        peek_def copy_controller_def memcpy_def store_def poke_def size_t_def Let_def
        replicate_update_same)

lemma c_str_example_addr:
  "c_str (''192.0.2.55'' @ replicate 118 NUL) = Some ''192.0.2.55''"
  by (simp add: c_str_def NUL_def)

lemma advertise_example_refused:
  "advertise_inpref_to_remote_dst (scripted_net 3 (- 1) 5) ''192.0.2.0/24'' 3600 ''192.0.2.55'' ''64552:0''
     = Some (- 2, [Socket 3, Connect 3 0xC0000237 4343 (- 1),
          Stdout ''ERROR: connection to the remote controller failed (Connection refused)\<newline>''])"
  by (simp add: scripted_net_def advertise_inpref_to_remote_dst_def Let_def)

lemma fmt_d_minus3: "fmt_d (- 3) = ''-3''"
  by (simp add: fmt_d_def fmt_dec.simps digit_def)

text \<open>
  Claim C9 as stated fails: a message that does not parse (status -3) under \<open>resolve\<close>, and
  a refused connection under \<open>advertise\<close>, both end with the exit status 0.
\<close>

theorem main_failure_counterexample:
  "main sample_inet_pton (scripted_resolv 22 sample_answer False []) (scripted_net 3 0 5)
       (replicate 128 NUL) (replicate 128 NUL) [''rpp'', ''resolve'', ''203.0.113.0/24'']
     = Some (0, [Stdout ''ERROR: DNS failure (-3)\<newline>''])
   \<and> main sample_inet_pton (scripted_resolv 22 sample_answer True [Some 0, Some 7]) (scripted_net 3 (- 1) 5)
       (replicate 128 NUL) (replicate 128 NUL)
       [''rpp'', ''advertise'', ''203.0.113.0/24'', ''192.0.2.0/24'', ''64552:0'']
     = Some (0, [Stdout ''RDE controller for 203.0.113.0/24 is 192.0.2.55\<newline>'',
          Stdout ''Sending preferences...\<newline>'',
          Socket 3, Connect 3 0xC0000237 4343 (- 1),
          Stdout ''ERROR: connection to the remote controller failed (Connection refused)\<newline>''])"
  by (simp add: main_resolve main_advertise cut_prefix_example ip2revdns_example [simplified]
        c_str_example [simplified] rpp_example_error rpp_example_found [simplified]
        c_str_example_addr [simplified] advertise_example_refused report_def fmt_d_minus3)

lemma ip2revdns_example_short:
  "ip2revdns sample_inet_pton (Ptr (replicate 128 NUL)) 128 (Ptr ''1.2'')
     = Some (- 1, Ptr (replicate 128 NUL))"
  by (simp add: ip2revdns_def fail_zeroed_def poke_def replicate_update_same)

theorem main_failure_reporting_witness:
  "main sample_inet_pton (scripted_resolv 22 sample_answer False []) (scripted_net 3 0 5)
       (replicate 128 NUL) (replicate 128 NUL) [''rpp'', ''resolve'', ''1.2/24'']
     = Some (1, [Stdout (''ERROR: failed to compute a reverse DNS for '' @ SQ @ ''1.2/24'' @ SQ
                          @ ''\<newline>'')])
   \<and> main sample_inet_pton (scripted_resolv 22 sample_answer False []) (scripted_net 3 0 5)
       (replicate 128 NUL) (replicate 128 NUL) [''rpp'', ''resolve'', ''203.0.113.0/24'']
     = Some (0, [Stdout ''ERROR: DNS failure (-3)\<newline>''])
   \<and> main sample_inet_pton (scripted_resolv 22 sample_answer True [Some 0, Some 7]) (scripted_net 3 (- 1) 5)
       (replicate 128 NUL) (replicate 128 NUL)
       [''rpp'', ''advertise'', ''203.0.113.0/24'', ''192.0.2.0/24'', ''64552:0'']
     = Some (0, [Stdout ''RDE controller for 203.0.113.0/24 is 192.0.2.55\<newline>'',
          Stdout ''Sending preferences...\<newline>'',
          Socket 3, Connect 3 0xC0000237 4343 (- 1),
          Stdout ''ERROR: connection to the remote controller failed (Connection refused)\<newline>''])"
  using main_failure_reporting [of sample_inet_pton "replicate 128 NUL" "''1.2/24''" "- 1"
      "replicate 128 NUL" "scripted_resolv 22 sample_answer False []" "scripted_net 3 0 5"
      "replicate 128 NUL" "''rpp''"]
    main_failure_reporting [of sample_inet_pton "replicate 128 NUL" "''203.0.113.0/24''" "- 1"
      "''0.113.0.203.in-addr.arpa'' @ replicate 104 NUL" "scripted_resolv 22 sample_answer False []"
      "scripted_net 3 0 5" "replicate 128 NUL" "''rpp''" "[]" "[]" "''0.113.0.203.in-addr.arpa''"
      "- 3" "replicate 128 NUL"]
    main_failure_reporting [of sample_inet_pton "replicate 128 NUL" "''203.0.113.0/24''" "- 1"
      "''0.113.0.203.in-addr.arpa'' @ replicate 104 NUL"
      "scripted_resolv 22 sample_answer True [Some 0, Some 7]"
      "scripted_net 3 (- 1) 5" "replicate 128 NUL" "''rpp''" "''192.0.2.0/24''" "''64552:0''"
      "''0.113.0.203.in-addr.arpa''" 0 "''192.0.2.55'' @ replicate 118 NUL"
      "Stdout ''RDE controller for 203.0.113.0/24 is 192.0.2.55\<newline>''" "''192.0.2.55''" "- 2"
      "[Socket 3, Connect 3 0xC0000237 4343 (- 1),
          Stdout ''ERROR: connection to the remote controller failed (Connection refused)\<newline>'']"]
  by (simp add: cut_prefix_example ip2revdns_example [simplified] c_str_example [simplified]
        ip2revdns_example_short rpp_example_error rpp_example_found [simplified]
        c_str_example_addr [simplified] advertise_example_refused report_def fmt_d_minus3)

lemma advertise_example_sent:
  "advertise_inpref_to_remote_dst (scripted_net 3 0 5) ''192.0.2.0/24'' 3600 ''192.0.2.55'' ''64552:0''
     = Some (0, [Socket 3, Connect 3 0xC0000237 4343 0,
          Send 3 (''SETINPREF 3600'' @ TAB) True 15, Send 3 ''192.0.2.0/24'' True 12,
          Send 3 TAB True 1, Send 3 ''64552:0'' True 7, Send 3 CRLF False 2, Close 3])"
  by (simp add: scripted_net_def advertise_inpref_to_remote_dst_def Let_def fmt_d_3600 TAB_def CRLF_def
        to_unsigned_def)

theorem rpp_getcontroller_failure_frame_witness:
  "rpp_getcontroller (scripted_resolv 22 sample_answer False []) (''192.0.2.55'' @ replicate 118 NUL) 128
       ''0.113.0.203.in-addr.arpa''
     = Some (- 3, ''192.0.2.55'' @ replicate 118 NUL)
   \<and> main sample_inet_pton (scripted_resolv 22 sample_answer False []) (scripted_net 3 0 5)
       (replicate 128 NUL) (''192.0.2.55'' @ replicate 118 NUL)
       [''rpp'', ''advertise'', ''203.0.113.0/24'', ''192.0.2.0/24'', ''64552:0'']
     = Some (0, [Stdout ''ERROR: DNS failure (-3)\<newline>'',
          Stdout ''Sending preferences...\<newline>'',
          Socket 3, Connect 3 0xC0000237 4343 0,
          Send 3 (''SETINPREF 3600'' @ TAB) True 15, Send 3 ''192.0.2.0/24'' True 12,
          Send 3 TAB True 1, Send 3 ''64552:0'' True 7, Send 3 CRLF False 2, Close 3,
          Stdout ''Done.\<newline>''])"
  using rpp_getcontroller_failure_frame
    [where rs = "scripted_resolv 22 sample_answer False []"
       and result = "''192.0.2.55'' @ replicate 118 NUL" and maxres = 128
       and revname = "''0.113.0.203.in-addr.arpa''" and st = "- 3"
       and result' = "''192.0.2.55'' @ replicate 118 NUL"
       and inet_pton = sample_inet_pton and revdns = "replicate 128 NUL"
       and prefixorg = "''203.0.113.0/24''"
       and b = "''0.113.0.203.in-addr.arpa'' @ replicate 104 NUL"
       and rdeaddr = "''192.0.2.55'' @ replicate 118 NUL"
       and rdeaddr' = "''192.0.2.55'' @ replicate 118 NUL" and a = "''192.0.2.55''"
       and nt = "scripted_net 3 0 5" and prog = "''rpp''" and loc = "''192.0.2.0/24''"
       and pref = "''64552:0''"]
  by (simp add: cut_prefix_example ip2revdns_example [simplified] c_str_example [simplified]
        rpp_example_error c_str_example_addr [simplified] advertise_example_sent [simplified]
        fmt_d_minus3)

end
